theory Spec2Isabelle
  imports Complex_Main
begin

section \<open>The notebooks as data\<close>

text \<open>
  The repository consists of Jupyter notebooks. A notebook is a list of cells; a
  code cell is a list of Python statements. The statements and expressions below
  are the Python abstract syntax the notebooks are written in (constructor names
  follow Python's \<open>ast\<close> module). Compound statements that a notebook could
  contain but that none does (\<open>while\<close>, \<open>if\<close>, \<open>try\<close>, \<open>with\<close>,
  \<open>raise\<close>, \<open>def\<close>) are part of the syntax, so that their absence is a
  property of the notebooks and not of the datatype.
\<close>

datatype literal =
    CInt int
  | CFloat string  \<comment> \<open>a float literal, kept as its source text\<close>
  | CStr string
  | CBool bool
  | CNone

datatype binop = Add | Sub | Mult | Div

datatype unaryop = USub

datatype cmpop = CmpLt | CmpGt | CmpEq

datatype expr =
    Name string
  | Constant literal
  | Attribute expr string
  | Call expr "expr list" "(string \<times> expr) list"
      \<comment> \<open>function, positional arguments, keyword arguments\<close>
  | Subscript expr expr
  | BinOp expr binop expr
  | UnaryOp unaryop expr
  | Compare expr cmpop expr
  | ListE "expr list"
  | TupleE "expr list"
  | DictE "(expr \<times> expr) list"
  | Slice "expr option" "expr option"

datatype stmt =
    Import string "string option"  \<comment> \<open>\<open>import m\<close> or \<open>import m as a\<close>\<close>
  | ImportFrom string "string list"  \<comment> \<open>\<open>from m import a, b\<close>\<close>
  | Assign expr expr
  | AugAssign expr binop expr
  | Expr expr
  | For expr expr "stmt list"
  | While expr "stmt list"
  | IfElse expr "stmt list" "stmt list"
  | Try "stmt list" "stmt list list" "stmt list"
      \<comment> \<open>body, the bodies of the \<open>except\<close> handlers, \<open>finally\<close>\<close>
  | WithAs expr "stmt list"
  | Raise "expr option"
  | FunctionDef string "string list" "stmt list"
  | Magic string  \<comment> \<open>an IPython line magic: \<open>%matplotlib inline\<close>, \<open>?name\<close>\<close>

datatype cell =
    Markdown "string option"
      \<comment> \<open>a prose cell; the model keeps its position and its level-1 title\<close>
  | Code "stmt list"

record notebook =
  source_file :: string
  part :: nat  \<comment> \<open>position among the notebooks stored in \<open>source_file\<close>\<close>
  nbformat :: nat
  kernel :: string
  cells :: "cell list"

section \<open>The four notebooks\<close>

text \<open>
  Each notebook is transcribed cell by cell and statement by statement; comments
  are dropped, a prose cell keeps its place.
\<close>

text \<open>The NormalFault tutorial (\<open>unnamed/part_000\<close>).\<close>

definition normal_fault_cells :: "cell list" where
  "normal_fault_cells =
     [Markdown None,
      Markdown (Some ''Introduction to the NormalFault component''),
      Code
        [Import ''matplotlib.pyplot'' (Some ''plt''),
         Import ''numpy'' (Some ''np''),
         ImportFrom ''landlab'' [''HexModelGrid'', ''RasterModelGrid''],
         ImportFrom
           ''landlab.components''
           [''FastscapeEroder'', ''FlowAccumulator'', ''NormalFault'', ''StreamPowerEroder''],
         ImportFrom ''landlab.plot'' [''imshow_grid''],
         Magic ''%matplotlib inline''],
      Markdown None,
      Code
        [Assign
           (Name ''grid'')
           (Call
             (Name ''RasterModelGrid'')
             [TupleE [Constant (CInt 6), Constant (CInt 6)]]
             [(''xy_spacing'', Constant (CInt 10))]),
         Expr
           (Call
             (Attribute (Name ''grid'') ''add_zeros'')
             [Constant (CStr ''topographic__elevation'')]
             [(''at'', Constant (CStr ''node''))]),
         Assign (Name ''nf'') (Call (Name ''NormalFault'') [Name ''grid''] []),
         Expr (Call (Attribute (Name ''plt'') ''figure'') [] []),
         Expr
           (Call
             (Name ''imshow_grid'')
             [Name ''grid'',
              Call
                (Attribute (Attribute (Name ''nf'') ''faulted_nodes'') ''astype'')
                [Name ''int'']
                []]
             [(''cmap'', Constant (CStr ''viridis''))]),
         Expr
           (Call
             (Attribute (Name ''plt'') ''plot'')
             [Attribute (Name ''grid'') ''x_of_node'',
              Attribute (Name ''grid'') ''y_of_node'',
              Constant (CStr ''c.'')]
             []),
         Expr (Call (Attribute (Name ''plt'') ''show'') [] [])],
      Markdown None,
      Code
        [Assign
           (Name ''nf'')
           (Call
             (Name ''NormalFault'')
             [Name ''grid'']
             [(''include_boundaries'', Constant (CBool True))]),
         Expr (Call (Attribute (Name ''plt'') ''figure'') [] []),
         Expr
           (Call
             (Name ''imshow_grid'')
             [Name ''grid'',
              Call
                (Attribute (Attribute (Name ''nf'') ''faulted_nodes'') ''astype'')
                [Name ''int'']
                []]
             [(''cmap'', Constant (CStr ''viridis''))]),
         Expr
           (Call
             (Attribute (Name ''plt'') ''plot'')
             [Attribute (Name ''grid'') ''x_of_node'',
              Attribute (Name ''grid'') ''y_of_node'',
              Constant (CStr ''c.'')]
             []),
         Expr (Call (Attribute (Name ''plt'') ''show'') [] [])],
      Markdown None,
      Code
        [Assign
           (Name ''grid'')
           (Call
             (Name ''RasterModelGrid'')
             [TupleE [Constant (CInt 60), Constant (CInt 100)]]
             [(''xy_spacing'', Constant (CInt 10))]),
         Assign
           (Name ''z'')
           (Call
             (Attribute (Name ''grid'') ''add_zeros'')
             [Constant (CStr ''topographic__elevation'')]
             [(''at'', Constant (CStr ''node''))]),
         Assign
           (Name ''nf'')
           (Call
             (Name ''NormalFault'')
             [Name ''grid'']
             [(''fault_trace'',
               DictE
                 [(Constant (CStr ''x1''), Constant (CInt 0)),
                  (Constant (CStr ''y1''), Constant (CInt 200)),
                  (Constant (CStr ''y2''), Constant (CInt 30)),
                  (Constant (CStr ''x2''), Constant (CInt 600))])]),
         Expr
           (Call
             (Name ''imshow_grid'')
             [Name ''grid'',
              Call
                (Attribute (Attribute (Name ''nf'') ''faulted_nodes'') ''astype'')
                [Name ''int'']
                []]
             [(''cmap'', Constant (CStr ''viridis''))])],
      Markdown None,
      Code
        [Assign
           (Name ''grid'')
           (Call
             (Name ''RasterModelGrid'')
             [TupleE [Constant (CInt 60), Constant (CInt 100)]]
             [(''xy_spacing'', Constant (CInt 10))]),
         Assign
           (Name ''z'')
           (Call
             (Attribute (Name ''grid'') ''add_zeros'')
             [Constant (CStr ''topographic__elevation'')]
             [(''at'', Constant (CStr ''node''))]),
         Assign
           (Name ''nf'')
           (Call
             (Name ''NormalFault'')
             [Name ''grid'']
             [(''fault_trace'',
               DictE
                 [(Constant (CStr ''y1''), Constant (CInt 30)),
                  (Constant (CStr ''x1''), Constant (CInt 600)),
                  (Constant (CStr ''x2''), Constant (CInt 0)),
                  (Constant (CStr ''y2''), Constant (CInt 200))])]),
         Expr
           (Call
             (Name ''imshow_grid'')
             [Name ''grid'',
              Call
                (Attribute (Attribute (Name ''nf'') ''faulted_nodes'') ''astype'')
                [Name ''int'']
                []]
             [(''cmap'', Constant (CStr ''viridis''))])],
      Markdown None,
      Code
        [Assign (Name ''K'') (Constant (CFloat ''0.0005'')),
         Assign (Name ''U'') (Constant (CFloat ''0.0001'')),
         Assign (Name ''dt'') (Constant (CInt 1000)),
         Assign (Name ''dx'') (Constant (CInt 10)),
         Assign (Name ''nr'') (Constant (CInt 60)),
         Assign (Name ''nc'') (Constant (CInt 100))],
      Code
        [Assign
           (Name ''grid'')
           (Call
             (Name ''HexModelGrid'')
             [TupleE [Name ''nr'', Name ''nc''], Name ''dx'']
             [(''node_layout'', Constant (CStr ''rect''))]),
         Assign
           (Name ''z'')
           (Call
             (Attribute (Name ''grid'') ''add_zeros'')
             [Constant (CStr ''topographic__elevation'')]
             [(''at'', Constant (CStr ''node''))]),
         AugAssign
           (Subscript (Name ''z'') (Attribute (Name ''grid'') ''core_nodes''))
           Add
           (BinOp
             (Constant (CFloat ''100.0''))
             Add
             (Call
               (Attribute (Attribute (Name ''np'') ''random'') ''randn'')
               [Attribute (Attribute (Name ''grid'') ''core_nodes'') ''size'']
               [])),
         Assign (Name ''fr'') (Call (Name ''FlowAccumulator'') [Name ''grid''] []),
         Assign
           (Name ''fs'')
           (Call (Name ''FastscapeEroder'') [Name ''grid''] [(''K_sp'', Name ''K'')]),
         Assign
           (Name ''nf'')
           (Call
             (Name ''NormalFault'')
             [Name ''grid'']
             [(''fault_trace'',
               DictE
                 [(Constant (CStr ''x1''), Constant (CInt 0)),
                  (Constant (CStr ''x2''), Constant (CInt 800)),
                  (Constant (CStr ''y1''), Constant (CInt 0)),
                  (Constant (CStr ''y2''), Constant (CInt 500))])]),
         For
           (Name ''i'')
           (Call (Name ''range'') [Constant (CInt 300)] [])
           [Expr (Call (Attribute (Name ''nf'') ''run_one_step'') [Name ''dt''] []),
            Expr (Call (Attribute (Name ''fr'') ''run_one_step'') [] []),
            Expr (Call (Attribute (Name ''fs'') ''run_one_step'') [Name ''dt''] []),
            AugAssign
              (Subscript (Name ''z'') (Attribute (Name ''grid'') ''core_nodes''))
              Add
              (BinOp (Constant (CFloat ''0.0001'')) Mult (Name ''dt''))],
         Expr (Call (Name ''imshow_grid'') [Name ''grid'', Name ''z''] [])],
      Markdown None,
      Code
        [Assign
           (Name ''grid'')
           (Call
             (Name ''HexModelGrid'')
             [TupleE [Name ''nr'', Name ''nc''], Constant (CInt 10)]
             [(''node_layout'', Constant (CStr ''rect''))]),
         Assign
           (Name ''z'')
           (Call
             (Attribute (Name ''grid'') ''add_zeros'')
             [Constant (CStr ''topographic__elevation'')]
             [(''at'', Constant (CStr ''node''))]),
         AugAssign
           (Subscript (Name ''z'') (Attribute (Name ''grid'') ''core_nodes''))
           Add
           (BinOp
             (Constant (CFloat ''100.0''))
             Add
             (Call
               (Attribute (Attribute (Name ''np'') ''random'') ''randn'')
               [Attribute (Attribute (Name ''grid'') ''core_nodes'') ''size'']
               [])),
         Assign (Name ''fr'') (Call (Name ''FlowAccumulator'') [Name ''grid''] []),
         Assign
           (Name ''fs'')
           (Call (Name ''FastscapeEroder'') [Name ''grid''] [(''K_sp'', Name ''K'')]),
         Assign
           (Name ''nf'')
           (Call
             (Name ''NormalFault'')
             [Name ''grid'']
             [(''fault_trace'',
               DictE
                 [(Constant (CStr ''x1''), Constant (CInt 0)),
                  (Constant (CStr ''x2''), Constant (CInt 800)),
                  (Constant (CStr ''y1''), Constant (CInt 0)),
                  (Constant (CStr ''y2''), Constant (CInt 500))]),
              (''include_boundaries'', Constant (CBool True))]),
         For
           (Name ''i'')
           (Call (Name ''range'') [Constant (CInt 300)] [])
           [Expr (Call (Attribute (Name ''nf'') ''run_one_step'') [Name ''dt''] []),
            Expr (Call (Attribute (Name ''fr'') ''run_one_step'') [] []),
            Expr (Call (Attribute (Name ''fs'') ''run_one_step'') [Name ''dt''] []),
            AugAssign
              (Subscript (Name ''z'') (Attribute (Name ''grid'') ''core_nodes''))
              Add
              (BinOp (Name ''U'') Mult (Name ''dt''))],
         Expr (Call (Name ''imshow_grid'') [Name ''grid'', Name ''z''] [])],
      Markdown None,
      Code
        [Assign
           (Name ''time'')
           (BinOp
             (BinOp
               (Call
                 (Attribute (Name ''np'') ''array'')
                 [ListE
                    [Constant (CFloat ''0.0''),
                     Constant (CFloat ''7.99''),
                     Constant (CFloat ''8.00''),
                     Constant (CFloat ''8.99''),
                     Constant (CFloat ''9.0''),
                     Constant (CFloat ''17.99''),
                     Constant (CFloat ''18.0''),
                     Constant (CFloat ''18.99''),
                     Constant (CFloat ''19.0''),
                     Constant (CFloat ''27.99''),
                     Constant (CFloat ''28.00''),
                     Constant (CFloat ''28.99''),
                     Constant (CFloat ''29.0'')]]
                 [])
               Mult
               (Constant (CInt 10)))
             Mult
             (Name ''dt'')),
         Assign
           (Name ''rate'')
           (Call
             (Attribute (Name ''np'') ''array'')
             [ListE
                [Constant (CInt 0),
                 Constant (CInt 0),
                 Constant (CFloat ''0.01''),
                 Constant (CFloat ''0.01''),
                 Constant (CInt 0),
                 Constant (CInt 0),
                 Constant (CFloat ''0.01''),
                 Constant (CFloat ''0.01''),
                 Constant (CInt 0),
                 Constant (CInt 0),
                 Constant (CFloat ''0.01''),
                 Constant (CFloat ''0.01''),
                 Constant (CInt 0)]]
             []),
         Expr (Call (Attribute (Name ''plt'') ''figure'') [] []),
         Expr (Call (Attribute (Name ''plt'') ''plot'') [Name ''time'', Name ''rate''] []),
         Expr
           (Call
             (Attribute (Name ''plt'') ''plot'')
             [ListE [Constant (CInt 0), BinOp (Constant (CInt 300)) Mult (Name ''dt'')],
              ListE [Constant (CFloat ''0.001''), Constant (CFloat ''0.001'')]]
             []),
         Expr (Call (Attribute (Name ''plt'') ''xlabel'') [Constant (CStr ''Time [years]'')] []),
         Expr
           (Call
             (Attribute (Name ''plt'') ''ylabel'')
             [Constant (CStr ''Fault Throw Rate [m/yr]'')]
             []),
         Expr (Call (Attribute (Name ''plt'') ''show'') [] [])],
      Markdown None,
      Code
        [Assign
           (Name ''t'')
           (Call
             (Attribute (Name ''np'') ''arange'')
             [Constant (CInt 0), BinOp (Constant (CInt 300)) Mult (Name ''dt''), Name ''dt'']
             []),
         Assign
           (Name ''rate_constant'')
           (Call
             (Attribute (Name ''np'') ''interp'')
             [Name ''t'',
              ListE [Constant (CInt 0), BinOp (Constant (CInt 300)) Mult (Name ''dt'')],
              ListE [Constant (CFloat ''0.001''), Constant (CFloat ''0.001'')]]
             []),
         Assign
           (Name ''rate_variable'')
           (Call (Attribute (Name ''np'') ''interp'') [Name ''t'', Name ''time'', Name ''rate''] []),
         Assign
           (Name ''cumulative_rock_uplift_constant'')
           (BinOp
             (Call (Attribute (Name ''np'') ''cumsum'') [Name ''rate_constant''] [])
             Mult
             (Name ''dt'')),
         Assign
           (Name ''cumulative_rock_uplift_variable'')
           (BinOp
             (Call (Attribute (Name ''np'') ''cumsum'') [Name ''rate_variable''] [])
             Mult
             (Name ''dt'')),
         Expr (Call (Attribute (Name ''plt'') ''figure'') [] []),
         Expr
           (Call
             (Attribute (Name ''plt'') ''plot'')
             [Name ''t'', Name ''cumulative_rock_uplift_constant'']
             []),
         Expr
           (Call
             (Attribute (Name ''plt'') ''plot'')
             [Name ''t'', Name ''cumulative_rock_uplift_variable'']
             []),
         Expr (Call (Attribute (Name ''plt'') ''xlabel'') [Constant (CStr ''Time [years]'')] []),
         Expr
           (Call
             (Attribute (Name ''plt'') ''ylabel'')
             [Constant (CStr ''Cumulative Fault Throw [m]'')]
             []),
         Expr (Call (Attribute (Name ''plt'') ''show'') [] [])],
      Markdown None,
      Code
        [Assign
           (Name ''grid'')
           (Call
             (Name ''HexModelGrid'')
             [TupleE [Name ''nr'', Name ''nc''], Constant (CInt 10)]
             [(''node_layout'', Constant (CStr ''rect''))]),
         Assign
           (Name ''z'')
           (Call
             (Attribute (Name ''grid'') ''add_zeros'')
             [Constant (CStr ''topographic__elevation'')]
             [(''at'', Constant (CStr ''node''))]),
         AugAssign
           (Subscript (Name ''z'') (Attribute (Name ''grid'') ''core_nodes''))
           Add
           (BinOp
             (Constant (CFloat ''100.0''))
             Add
             (Call
               (Attribute (Attribute (Name ''np'') ''random'') ''randn'')
               [Attribute (Attribute (Name ''grid'') ''core_nodes'') ''size'']
               [])),
         Assign (Name ''fr'') (Call (Name ''FlowAccumulator'') [Name ''grid''] []),
         Assign
           (Name ''fs'')
           (Call (Name ''FastscapeEroder'') [Name ''grid''] [(''K_sp'', Name ''K'')]),
         Assign
           (Name ''nf'')
           (Call
             (Name ''NormalFault'')
             [Name ''grid'']
             [(''fault_throw_rate_through_time'',
               DictE
                 [(Constant (CStr ''time''), Name ''time''),
                  (Constant (CStr ''rate''), Name ''rate'')]),
              (''fault_trace'',
               DictE
                 [(Constant (CStr ''x1''), Constant (CInt 0)),
                  (Constant (CStr ''x2''), Constant (CInt 800)),
                  (Constant (CStr ''y1''), Constant (CInt 0)),
                  (Constant (CStr ''y2''), Constant (CInt 500))]),
              (''include_boundaries'', Constant (CBool True))]),
         For
           (Name ''i'')
           (Call (Name ''range'') [Constant (CInt 300)] [])
           [Expr (Call (Attribute (Name ''nf'') ''run_one_step'') [Name ''dt''] []),
            Expr (Call (Attribute (Name ''fr'') ''run_one_step'') [] []),
            Expr (Call (Attribute (Name ''fs'') ''run_one_step'') [Name ''dt''] []),
            AugAssign
              (Subscript (Name ''z'') (Attribute (Name ''grid'') ''core_nodes''))
              Add
              (BinOp (Name ''U'') Mult (Name ''dt''))],
         Expr (Call (Name ''imshow_grid'') [Name ''grid'', Name ''z''] [])],
      Markdown None,
      Code
        [ImportFrom ''landlab.components'' [''DepthDependentDiffuser'', ''ExponentialWeatherer''],
         Assign (Name ''K'') (Constant (CFloat ''0.0005'')),
         Assign (Name ''U'') (Constant (CFloat ''0.0001'')),
         Assign (Name ''max_soil_production_rate'') (Constant (CFloat ''0.001'')),
         Assign (Name ''soil_production_decay_depth'') (Constant (CFloat ''0.7'')),
         Assign (Name ''linear_diffusivity'') (Constant (CFloat ''0.01'')),
         Assign (Name ''soil_transport_decay_depth'') (Constant (CFloat ''0.5'')),
         Assign (Name ''dt'') (Constant (CInt 100)),
         Assign (Name ''dx'') (Constant (CInt 10)),
         Assign (Name ''nr'') (Constant (CInt 60)),
         Assign (Name ''nc'') (Constant (CInt 100))],
      Code [Magic ''?ExponentialWeatherer''],
      Markdown None,
      Code
        [Assign
           (Name ''grid'')
           (Call
             (Name ''HexModelGrid'')
             [TupleE [Name ''nr'', Name ''nc''], Constant (CInt 10)]
             [(''node_layout'', Constant (CStr ''rect''))]),
         Assign
           (Name ''z'')
           (Call
             (Attribute (Name ''grid'') ''add_zeros'')
             [Constant (CStr ''topographic__elevation'')]
             [(''at'', Constant (CStr ''node''))]),
         AugAssign
           (Subscript (Name ''z'') (Attribute (Name ''grid'') ''core_nodes''))
           Add
           (BinOp
             (Constant (CFloat ''100.0''))
             Add
             (Call
               (Attribute (Attribute (Name ''np'') ''random'') ''randn'')
               [Attribute (Attribute (Name ''grid'') ''core_nodes'') ''size'']
               [])),
         Assign
           (Name ''d'')
           (Call
             (Attribute (Name ''grid'') ''add_zeros'')
             [Constant (CStr ''soil__depth'')]
             [(''at'', Constant (CStr ''node''))]),
         Assign
           (Name ''b'')
           (Call
             (Attribute (Name ''grid'') ''add_zeros'')
             [Constant (CStr ''bedrock__elevation'')]
             [(''at'', Constant (CStr ''node''))]),
         Assign (Subscript (Name ''b'') (Slice None None)) (BinOp (Name ''z'') Sub (Name ''d'')),
         Assign
           (Name ''fr'')
           (Call
             (Name ''FlowAccumulator'')
             [Name ''grid'']
             [(''depression_finder'', Constant (CStr ''DepressionFinderAndRouter'')),
              (''routing'', Constant (CStr ''D4''))]),
         Assign
           (Name ''fs'')
           (Call (Name ''FastscapeEroder'') [Name ''grid''] [(''K_sp'', Name ''K'')]),
         Assign
           (Name ''ew'')
           (Call
             (Name ''ExponentialWeatherer'')
             [Name ''grid'']
             [(''soil_production__decay_depth'', Name ''soil_production_decay_depth''),
              (''soil_production__maximum_rate'', Name ''max_soil_production_rate'')]),
         Assign
           (Name ''dd'')
           (Call
             (Name ''DepthDependentDiffuser'')
             [Name ''grid'']
             [(''linear_diffusivity'', Name ''linear_diffusivity''),
              (''soil_transport_decay_depth'', Name ''soil_transport_decay_depth'')]),
         Assign
           (Name ''nf'')
           (Call
             (Name ''NormalFault'')
             [Name ''grid'']
             [(''fault_throw_rate_through_time'',
               DictE
                 [(Constant (CStr ''time''), ListE [Constant (CInt 0), Constant (CInt 30)]),
                  (Constant (CStr ''rate''),
                   ListE [Constant (CFloat ''0.001''), Constant (CFloat ''0.001'')])]),
              (''fault_trace'',
               DictE
                 [(Constant (CStr ''x1''), Constant (CInt 0)),
                  (Constant (CStr ''x2''), Constant (CInt 800)),
                  (Constant (CStr ''y1''), Constant (CInt 0)),
                  (Constant (CStr ''y2''), Constant (CInt 500))]),
              (''include_boundaries'', Constant (CBool False))]),
         For
           (Name ''i'')
           (Call (Name ''range'') [Constant (CInt 300)] [])
           [Expr (Call (Attribute (Name ''nf'') ''run_one_step'') [Name ''dt''] []),
            Expr (Call (Attribute (Name ''fr'') ''run_one_step'') [] []),
            Expr (Call (Attribute (Name ''fs'') ''run_one_step'') [Name ''dt''] []),
            Assign
              (Name ''b'')
              (Subscript
                (Attribute (Name ''grid'') ''at_node'')
                (Constant (CStr ''bedrock__elevation''))),
            Assign
              (Subscript (Name ''b'') (Slice None None))
              (Call
                (Attribute (Name ''np'') ''minimum'')
                [Name ''b'',
                 Subscript
                   (Attribute (Name ''grid'') ''at_node'')
                   (Constant (CStr ''topographic__elevation''))]
                []),
            Expr (Call (Attribute (Name ''ew'') ''calc_soil_prod_rate'') [] []),
            Expr (Call (Attribute (Name ''dd'') ''run_one_step'') [Name ''dt''] []),
            AugAssign
              (Subscript (Name ''z'') (Attribute (Name ''grid'') ''core_nodes''))
              Add
              (BinOp (Name ''U'') Mult (Name ''dt'')),
            AugAssign
              (Subscript (Name ''b'') (Attribute (Name ''grid'') ''core_nodes''))
              Add
              (BinOp (Name ''U'') Mult (Name ''dt''))],
         Expr
           (Call
             (Name ''imshow_grid'')
             [Name ''grid'', Constant (CStr ''topographic__elevation'')]
             [])],
      Markdown None,
      Code
        [Expr
           (Call
             (Name ''imshow_grid'')
             [Name ''grid'', Constant (CStr ''soil__depth'')]
             [(''cmap'', Constant (CStr ''viridis''))])],
      Markdown None,
      Code
        [Expr
           (Call
             (Name ''imshow_grid'')
             [Name ''grid'', Constant (CStr ''soil_production__rate'')]
             [(''cmap'', Constant (CStr ''viridis''))])],
      Code []]"

definition normal_fault :: notebook where
  "normal_fault =
     \<lparr>source_file = ''unnamed/part_000'',
      part = 0, nbformat = 4, kernel = ''python3'',
      cells = normal_fault_cells\<rparr>"

text \<open>The one-dimensional flexure tutorial (\<open>flexure_1d.ipynb\<close>).\<close>

definition flexure_1d_cells :: "cell list" where
  "flexure_1d_cells =
     [Markdown None,
      Markdown (Some ''Using the Landlab 1D flexure component''),
      Markdown None,
      Code [Import ''numpy'' (Some ''np''), Import ''matplotlib.pyplot'' (Some ''plt'')],
      Markdown None,
      Code [ImportFrom ''landlab'' [''RasterModelGrid'']],
      Markdown None,
      Code
        [Assign
           (Name ''grid'')
           (Call
             (Name ''RasterModelGrid'')
             [TupleE [Constant (CInt 3), Constant (CInt 800)]]
             [(''xy_spacing'', TupleE [Constant (CFloat ''100e3''), Constant (CFloat ''10e3'')])])],
      Code [Expr (TupleE [Attribute (Name ''grid'') ''dy'', Attribute (Name ''grid'') ''dx''])],
      Markdown None,
      Markdown None,
      Code [ImportFrom ''landlab.components'' [''Flexure1D'']],
      Markdown None,
      Code [Expr (Attribute (Name ''Flexure1D'') ''input_var_names'')],
      Markdown None,
      Code
        [Expr
           (Call
             (Attribute (Name ''Flexure1D'') ''var_units'')
             [Constant (CStr ''lithosphere__increment_of_overlying_pressure'')]
             [])],
      Markdown None,
      Code
        [Expr
           (Call
             (Attribute (Name ''Flexure1D'') ''var_help'')
             [Constant (CStr ''lithosphere__increment_of_overlying_pressure'')]
             [])],
      Markdown None,
      Code [Expr (Attribute (Name ''Flexure1D'') ''output_var_names'')],
      Code
        [Expr
           (Call
             (Attribute (Name ''Flexure1D'') ''var_help'')
             [Constant (CStr ''lithosphere_surface__increment_of_elevation'')]
             [])],
      Markdown None,
      Code
        [Expr
           (Call
             (Attribute (Name ''grid'') ''add_zeros'')
             [Constant (CStr ''lithosphere__increment_of_overlying_pressure'')]
             [(''at'', Constant (CStr ''node''))]),
         Assign
           (Name ''flex'')
           (Call (Name ''Flexure1D'') [Name ''grid''] [(''method'', Constant (CStr ''flexure''))])],
      Markdown None,
      Markdown None,
      Code
        [Assign
           (Subscript
             (Attribute (Name ''flex'') ''load_at_node'')
             (TupleE [Constant (CInt 1), Constant (CInt 200)]))
           (Constant (CFloat ''1e6'')),
         Expr (Call (Attribute (Name ''flex'') ''update'') [] []),
         Expr
           (Call
             (Attribute (Name ''plt'') ''plot'')
             [BinOp
                (Subscript
                  (Attribute (Name ''flex'') ''x_at_node'')
                  (TupleE [Constant (CInt 1), Slice None (Some (Constant (CInt 400)))]))
                Div
                (Constant (CFloat ''1000.0'')),
              Subscript
                (Attribute (Name ''flex'') ''dz_at_node'')
                (TupleE [Constant (CInt 1), Slice None (Some (Constant (CInt 400)))])]
             [])],
      Markdown None,
      Code
        [Assign
           (Subscript (Attribute (Name ''flex'') ''dz_at_node'') (Slice None None))
           (Constant (CFloat ''0.0''))],
      Markdown None,
      Code
        [AugAssign (Attribute (Name ''flex'') ''eet'') Mult (Constant (CFloat ''2.0'')),
         Expr (Call (Attribute (Name ''flex'') ''update'') [] []),
         Expr
           (Call
             (Attribute (Name ''plt'') ''plot'')
             [BinOp
                (Subscript
                  (Attribute (Name ''flex'') ''x_at_node'')
                  (TupleE [Constant (CInt 1), Slice None (Some (Constant (CInt 400)))]))
                Div
                (Constant (CFloat ''1000.0'')),
              Subscript
                (Attribute (Name ''flex'') ''dz_at_node'')
                (TupleE [Constant (CInt 1), Slice None (Some (Constant (CInt 400)))])]
             [])],
      Markdown None,
      Code
        [Assign
           (Subscript
             (Attribute (Name ''flex'') ''load_at_node'')
             (TupleE [Constant (CInt 1), Slice None (Some (Constant (CInt 100)))]))
           (Constant (CFloat ''0.0'')),
         Assign
           (Subscript
             (Attribute (Name ''flex'') ''load_at_node'')
             (TupleE
               [Constant (CInt 1), Slice (Some (Constant (CInt 100))) (Some (Constant (CInt 300)))]))
           (BinOp
             (BinOp
               (Call (Attribute (Name ''np'') ''arange'') [Constant (CInt 200)] [])
               Mult
               (Constant (CFloat ''1e6'')))
             Div
             (Constant (CFloat ''200.0''))),
         Assign
           (Subscript
             (Attribute (Name ''flex'') ''load_at_node'')
             (TupleE [Constant (CInt 1), Slice (Some (Constant (CInt 300))) None]))
           (Constant (CFloat ''1e6''))],
      Code
        [Expr
           (Call
             (Attribute (Name ''plt'') ''plot'')
             [Subscript
                (Attribute (Name ''flex'') ''load_at_node'')
                (TupleE [Constant (CInt 1), Slice None (Some (Constant (CInt 400)))])]
             [])],
      Markdown None,
      Code
        [Assign
           (Subscript (Attribute (Name ''flex'') ''dz_at_node'') (Slice None None))
           (Constant (CFloat ''0.0'')),
         Expr (Call (Attribute (Name ''flex'') ''update'') [] [])],
      Code
        [Expr
           (Call
             (Attribute (Name ''plt'') ''plot'')
             [BinOp
                (Subscript
                  (Attribute (Name ''flex'') ''x_at_node'')
                  (TupleE [Constant (CInt 1), Slice None (Some (Constant (CInt 400)))]))
                Div
                (Constant (CFloat ''1000.0'')),
              Subscript
                (Attribute (Name ''flex'') ''dz_at_node'')
                (TupleE [Constant (CInt 1), Slice None (Some (Constant (CInt 400)))])]
             [])],
      Markdown None,
      Markdown None]"

definition flexure_1d :: notebook where
  "flexure_1d =
     \<lparr>source_file = ''notebooks/tutorials/flexure/flexure_1d.ipynb'',
      part = 0, nbformat = 4, kernel = ''python3'',
      cells = flexure_1d_cells\<rparr>"

text \<open>The sediment-transport tutorial, first notebook of
  \<open>network_sediment_transporter_shapefile_network.ipynb\<close>.\<close>

definition network_sediment_transporter_cells :: "cell list" where
  "network_sediment_transporter_cells =
     [Markdown None,
      Markdown
        (Some
          ''Using the Landlab NetworkSedimentTransporter component starting with a shapefile river network''),
      Markdown None,
      Code
        [Import ''warnings'' None,
         Expr
           (Call (Attribute (Name ''warnings'') ''filterwarnings'') [Constant (CStr ''ignore'')] []),
         Import ''os'' None,
         Import ''pathlib'' None,
         Import ''matplotlib.pyplot'' (Some ''plt''),
         Import ''numpy'' (Some ''np''),
         Import ''xarray'' (Some ''xr''),
         ImportFrom
           ''landlab.components''
           [''FlowDirectorSteepest'', ''NetworkSedimentTransporter''],
         ImportFrom ''landlab.data_record'' [''DataRecord''],
         ImportFrom ''landlab.grid.network'' [''NetworkModelGrid''],
         ImportFrom ''landlab.plot'' [''graph''],
         ImportFrom ''landlab.io'' [''read_shapefile''],
         ImportFrom ''landlab'' [''ExampleData''],
         ImportFrom ''landlab.plot'' [''plot_network_and_parcels''],
         Magic ''%matplotlib inline''],
      Markdown None,
      Code
        [Assign
           (Name ''datadir'')
           (Attribute
             (Call
               (Name ''ExampleData'')
               [Constant (CStr ''io/shapefile'')]
               [(''case'', Constant (CStr ''methow''))])
             ''base''),
         Assign
           (Name ''shp_file'')
           (BinOp (Name ''datadir'') Div (Constant (CStr ''MethowSubBasin.shp''))),
         Assign
           (Name ''points_shapefile'')
           (BinOp (Name ''datadir'') Div (Constant (CStr ''MethowSubBasin_Nodes_4.shp''))),
         Assign
           (Name ''grid'')
           (Call
             (Name ''read_shapefile'')
             [Name ''shp_file'']
             [(''points_shapefile'', Name ''points_shapefile''),
              (''node_fields'', ListE [Constant (CStr ''usarea_km2''), Constant (CStr ''Elev_m'')]),
              (''link_fields'',
               ListE [Constant (CStr ''usarea_km2''), Constant (CStr ''Length_m'')]),
              (''link_field_conversion'',
               DictE
                 [(Constant (CStr ''usarea_km2''), Constant (CStr ''drainage_area'')),
                  (Constant (CStr ''Slope''), Constant (CStr ''channel_slope'')),
                  (Constant (CStr ''Length_m''), Constant (CStr ''reach_length''))]),
              (''node_field_conversion'',
               DictE
                 [(Constant (CStr ''usarea_km2''), Constant (CStr ''drainage_area'')),
                  (Constant (CStr ''Elev_m''), Constant (CStr ''topographic__elevation''))]),
              (''threshold'', Constant (CFloat ''0.01''))])],
      Markdown None,
      Code [Expr (Call (Attribute (Attribute (Name ''grid'') ''at_link'') ''keys'') [] [])],
      Code [Expr (Call (Attribute (Attribute (Name ''grid'') ''at_node'') ''keys'') [] [])],
      Markdown None,
      Code
        [Expr
           (Call
             (Attribute (Name ''graph'') ''plot_graph'')
             [Name ''grid'']
             [(''at'', Constant (CStr ''node,link''))])],
      Code [Expr (Attribute (Name ''grid'') ''number_of_links'')],
      Code [Expr (Attribute (Name ''grid'') ''number_of_nodes'')],
      Markdown None,
      Code
        [Assign
           (Subscript
             (Attribute (Name ''grid'') ''at_node'')
             (Constant (CStr ''bedrock__elevation'')))
           (Call
             (Attribute
               (Subscript
                 (Attribute (Name ''grid'') ''at_node'')
                 (Constant (CStr ''topographic__elevation'')))
               ''copy'')
             []
             []),
         Assign
           (Subscript (Attribute (Name ''grid'') ''at_link'') (Constant (CStr ''channel_width'')))
           (BinOp
             (Constant (CInt 1))
             Mult
             (Call
               (Attribute (Name ''np'') ''ones'')
               [Attribute (Name ''grid'') ''number_of_links'']
               [])),
         Assign
           (Subscript (Attribute (Name ''grid'') ''at_link'') (Constant (CStr ''flow_depth'')))
           (BinOp
             (Constant (CFloat ''0.5''))
             Mult
             (Call
               (Attribute (Name ''np'') ''ones'')
               [Attribute (Name ''grid'') ''number_of_links'']
               []))],
      Markdown None,
      Markdown None,
      Code
        [Assign
           (Name ''element_id'')
           (Call
             (Attribute (Name ''np'') ''repeat'')
             [Call
                (Attribute (Name ''np'') ''arange'')
                [Attribute (Name ''grid'') ''number_of_links'']
                [],
              Constant (CInt 50)]
             []),
         Assign
           (Name ''element_id'')
           (Call
             (Attribute (Name ''np'') ''expand_dims'')
             [Name ''element_id'']
             [(''axis'', Constant (CInt 1))]),
         Assign
           (Name ''volume'')
           (BinOp
             (Constant (CInt 1))
             Mult
             (Call
               (Attribute (Name ''np'') ''ones'')
               [Call (Attribute (Name ''np'') ''shape'') [Name ''element_id''] []]
               [])),
         Assign
           (Name ''active_layer'')
           (Call
             (Attribute (Name ''np'') ''ones'')
             [Call (Attribute (Name ''np'') ''shape'') [Name ''element_id''] []]
             []),
         Assign
           (Name ''density'')
           (BinOp
             (Constant (CInt 2650))
             Mult
             (Call
               (Attribute (Name ''np'') ''ones'')
               [Call (Attribute (Name ''np'') ''size'') [Name ''element_id''] []]
               [])),
         Assign
           (Name ''abrasion_rate'')
           (BinOp
             (Constant (CInt 0))
             Mult
             (Call
               (Attribute (Name ''np'') ''ones'')
               [Call (Attribute (Name ''np'') ''size'') [Name ''element_id''] []]
               [])),
         Assign (Name ''medianD'') (Constant (CFloat ''0.15'')),
         Assign (Name ''mu'') (Call (Attribute (Name ''np'') ''log'') [Name ''medianD''] []),
         Assign (Name ''sigma'') (Call (Attribute (Name ''np'') ''log'') [Constant (CInt 2)] []),
         Expr
           (Call (Attribute (Attribute (Name ''np'') ''random'') ''seed'') [Constant (CInt 0)] []),
         Assign
           (Name ''D'')
           (Call
             (Attribute (Attribute (Name ''np'') ''random'') ''lognormal'')
             [Name ''mu'',
              Name ''sigma'',
              Call (Attribute (Name ''np'') ''shape'') [Name ''element_id''] []]
             [])],
      Markdown None,
      Code
        [Assign
           (Name ''time_arrival_in_link'')
           (Call
             (Attribute (Attribute (Name ''np'') ''random'') ''rand'')
             [Call (Attribute (Name ''np'') ''size'') [Name ''element_id''] [], Constant (CInt 1)]
             []),
         Assign
           (Name ''location_in_link'')
           (Call
             (Attribute (Attribute (Name ''np'') ''random'') ''rand'')
             [Call (Attribute (Name ''np'') ''size'') [Name ''element_id''] [], Constant (CInt 1)]
             [])],
      Markdown None,
      Code
        [Assign
           (Name ''lithology'')
           (BinOp
             (ListE [Constant (CStr ''quartzite'')])
             Mult
             (Call (Attribute (Name ''np'') ''size'') [Name ''element_id''] []))],
      Markdown None,
      Code
        [Assign
           (Name ''variables'')
           (DictE
             [(Constant (CStr ''abrasion_rate''),
               TupleE [ListE [Constant (CStr ''item_id'')], Name ''abrasion_rate'']),
              (Constant (CStr ''density''),
               TupleE [ListE [Constant (CStr ''item_id'')], Name ''density'']),
              (Constant (CStr ''lithology''),
               TupleE [ListE [Constant (CStr ''item_id'')], Name ''lithology'']),
              (Constant (CStr ''time_arrival_in_link''),
               TupleE
                 [ListE [Constant (CStr ''item_id''), Constant (CStr ''time'')],
                  Name ''time_arrival_in_link'']),
              (Constant (CStr ''active_layer''),
               TupleE
                 [ListE [Constant (CStr ''item_id''), Constant (CStr ''time'')],
                  Name ''active_layer'']),
              (Constant (CStr ''location_in_link''),
               TupleE
                 [ListE [Constant (CStr ''item_id''), Constant (CStr ''time'')],
                  Name ''location_in_link'']),
              (Constant (CStr ''D''),
               TupleE [ListE [Constant (CStr ''item_id''), Constant (CStr ''time'')], Name ''D'']),
              (Constant (CStr ''volume''),
               TupleE
                 [ListE [Constant (CStr ''item_id''), Constant (CStr ''time'')], Name ''volume''])])],
      Markdown None,
      Code
        [Assign
           (Name ''items'')
           (DictE
             [(Constant (CStr ''grid_element''), Constant (CStr ''link'')),
              (Constant (CStr ''element_id''), Name ''element_id'')]),
         Assign
           (Name ''parcels'')
           (Call
             (Name ''DataRecord'')
             [Name ''grid'']
             [(''items'', Name ''items''),
              (''time'', ListE [Constant (CFloat ''0.0'')]),
              (''data_vars'', Name ''variables''),
              (''dummy_elements'',
               DictE
                 [(Constant (CStr ''link''),
                   ListE [Attribute (Name ''NetworkSedimentTransporter'') ''OUT_OF_NETWORK''])])])],
      Markdown None,
      Code
        [Assign (Name ''timesteps'') (Constant (CInt 10)),
         Assign
           (Name ''dt'')
           (BinOp
             (BinOp
               (BinOp (Constant (CInt 60)) Mult (Constant (CInt 60)))
               Mult
               (Constant (CInt 24)))
             Mult
             (Constant (CInt 2)))],
      Markdown None,
      Code
        [Assign
           (Name ''fd'')
           (Call
             (Name ''FlowDirectorSteepest'')
             [Name ''grid'', Constant (CStr ''topographic__elevation'')]
             []),
         Expr (Call (Attribute (Name ''fd'') ''run_one_step'') [] [])],
      Markdown None,
      Code
        [Assign
           (Name ''nst'')
           (Call
             (Name ''NetworkSedimentTransporter'')
             [Name ''grid'', Name ''parcels'', Name ''fd'']
             [(''bed_porosity'', Constant (CFloat ''0.3'')),
              (''g'', Constant (CFloat ''9.81'')),
              (''fluid_density'', Constant (CInt 1000)),
              (''transport_method'', Constant (CStr ''WilcockCrowe''))])],
      Markdown None,
      Code
        [For
           (Name ''t'')
           (Call
             (Name ''range'')
             [Constant (CInt 0), BinOp (Name ''timesteps'') Mult (Name ''dt''), Name ''dt'']
             [])
           [Expr (Call (Attribute (Name ''nst'') ''run_one_step'') [Name ''dt''] []),
            Expr
              (Call
                (Name ''print'')
                [Constant (CStr ''Model time: ''),
                 BinOp
                   (Name ''t'')
                   Div
                   (BinOp
                     (BinOp (Constant (CInt 60)) Mult (Constant (CInt 60)))
                     Mult
                     (Constant (CInt 24))),
                 Constant (CStr ''days passed'')]
                [])]],
      Markdown None,
      Markdown None,
      Code
        [Assign (Name ''timestep_of_interest'') (Constant (CInt 6)),
         Assign (Name ''originating_link'') (Constant (CInt 27)),
         Assign
           (Name ''parcelfilter'')
           (Call
             (Attribute (Name ''np'') ''zeros_like'')
             [Attribute (Attribute (Name ''parcels'') ''dataset'') ''element_id'']
             [(''dtype'', Name ''bool'')]),
         Assign
           (Subscript
             (Name ''parcelfilter'')
             (TupleE [Slice None None, Name ''timestep_of_interest'']))
           (Compare
             (Subscript
               (Attribute (Attribute (Name ''parcels'') ''dataset'') ''element_id'')
               (TupleE [Slice None None, Constant (CInt 0)]))
             CmpEq
             (Name ''originating_link'')),
         Assign
           (Name ''vol_orig_link'')
           (Call
             (Attribute (Name ''parcels'') ''calc_aggregate_value'')
             [Attribute (Attribute (Name ''xr'') ''Dataset'') ''sum'', Constant (CStr ''volume'')]
             [(''at'', Constant (CStr ''link'')),
              (''filter_array'', Name ''parcelfilter''),
              (''fill_value'', Constant (CFloat ''0.0''))]),
         Assign
           (Name ''fig'')
           (Call
             (Name ''plot_network_and_parcels'')
             [Name ''grid'', Name ''parcels'']
             [(''link_attribute'', Name ''vol_orig_link''),
              (''link_attribute_title'', Constant (CStr ''Vol of sed originating on link x'')),
              (''network_linewidth'', Constant (CInt 5)),
              (''parcel_alpha'', Constant (CInt 0))])],
      Markdown None,
      Code
        [Assign
           (Name ''parcel_vol_on_grid'')
           (Attribute
             (Subscript (Attribute (Name ''parcels'') ''dataset'') (Constant (CStr ''volume'')))
             ''values''),
         Assign
           (Subscript
             (Name ''parcel_vol_on_grid'')
             (Compare
               (Attribute
                 (Subscript
                   (Attribute (Name ''parcels'') ''dataset'')
                   (Constant (CStr ''element_id'')))
                 ''values'')
               CmpEq
               (UnaryOp USub (Constant (CInt 2)))))
           (Constant (CInt 0)),
         Expr
           (Call
             (Attribute (Name ''plt'') ''plot'')
             [BinOp
                (Call
                  (Attribute (Name ''np'') ''asarray'')
                  [Attribute (Name ''parcels'') ''time_coordinates'']
                  [])
                Div
                (BinOp
                  (BinOp (Constant (CInt 60)) Mult (Constant (CInt 60)))
                  Mult
                  (Constant (CInt 24))),
              Call
                (Attribute (Name ''np'') ''sum'')
                [Name ''parcel_vol_on_grid'']
                [(''axis'', Constant (CInt 0))],
              Constant (CStr ''-'')]
             [(''linewidth'', Constant (CInt 3)), (''alpha'', Constant (CFloat ''0.5''))]),
         Expr
           (Call
             (Attribute (Name ''plt'') ''ylabel'')
             [Constant (CStr ''Total volume of parcels on grid $[m^3]$'')]
             []),
         Expr (Call (Attribute (Name ''plt'') ''xlabel'') [Constant (CStr ''Time [days]'')] []),
         Expr (Call (Attribute (Name ''plt'') ''show'') [] [])],
      Markdown None,
      Code
        [Expr
           (Call
             (Attribute (Name ''plt'') ''loglog'')
             [Subscript
                (Attribute (Attribute (Name ''parcels'') ''dataset'') ''D'')
                (TupleE [Slice None None, UnaryOp USub (Constant (CInt 1))]),
              Attribute (Name ''nst'') ''_distance_traveled_cumulative'',
              Constant (CStr ''.'')]
             []),
         Expr
           (Call
             (Attribute (Name ''plt'') ''xlabel'')
             [Constant (CStr ''Parcel grain size (m)'')]
             []),
         Expr
           (Call
             (Attribute (Name ''plt'') ''ylabel'')
             [Constant (CStr ''Cumulative parcel travel distance (m)'')]
             [])],
      Markdown None,
      Code
        [Expr
           (Call
             (Attribute (Name ''plt'') ''plot'')
             [Subscript (Attribute (Name ''grid'') ''at_link'') (Constant (CStr ''channel_slope'')),
              Attribute (Name ''nst'') ''d_mean_active'',
              Constant (CStr ''.'')]
             []),
         Expr
           (Call (Attribute (Name ''plt'') ''xlabel'') [Constant (CStr ''Channel slope (m/m)'')] []),
         Expr
           (Call
             (Attribute (Name ''plt'') ''ylabel'')
             [Constant (CStr ''Mean grain size of active layer (m)'')]
             [])]]"

definition network_sediment_transporter :: notebook where
  "network_sediment_transporter =
     \<lparr>source_file = ''notebooks/tutorials/network_sediment_transporter/network_sediment_transporter_shapefile_network.ipynb'',
      part = 0, nbformat = 4, kernel = ''python3'',
      cells = network_sediment_transporter_cells\<rparr>"

text \<open>The boundary-conditions tutorial \<open>Setting Boundary Conditions: interior rectangle\<close>,
  second notebook of the same file.\<close>

definition interior_rectangle_cells :: "cell list" where
  "interior_rectangle_cells =
     [Markdown None,
      Markdown (Some ''Setting Boundary Conditions: interior rectangle''),
      Code
        [ImportFrom ''landlab'' [''RasterModelGrid''],
         Import ''numpy'' (Some ''np''),
         ImportFrom ''landlab.plot.imshow'' [''imshow_grid_at_node''],
         ImportFrom ''matplotlib.pyplot'' [''show''],
         Magic ''%matplotlib inline''],
      Code
        [Assign
           (Name ''mg'')
           (Call (Name ''RasterModelGrid'') [TupleE [Constant (CInt 10), Constant (CInt 10)]] [])],
      Markdown None,
      Code
        [Assign (Name ''min_x'') (Constant (CFloat ''2.5'')),
         Assign (Name ''max_x'') (Constant (CFloat ''5.0'')),
         Assign (Name ''min_y'') (Constant (CFloat ''3.5'')),
         Assign (Name ''max_y'') (Constant (CFloat ''7.5''))],
      Markdown None,
      Code
        [Assign
           (Name ''x_condition'')
           (Call
             (Attribute (Name ''np'') ''logical_and'')
             [Compare (Attribute (Name ''mg'') ''x_of_node'') CmpLt (Name ''max_x''),
              Compare (Attribute (Name ''mg'') ''x_of_node'') CmpGt (Name ''min_x'')]
             []),
         Assign
           (Name ''y_condition'')
           (Call
             (Attribute (Name ''np'') ''logical_and'')
             [Compare (Attribute (Name ''mg'') ''y_of_node'') CmpLt (Name ''max_y''),
              Compare (Attribute (Name ''mg'') ''y_of_node'') CmpGt (Name ''min_y'')]
             []),
         Assign
           (Name ''my_nodes'')
           (Call
             (Attribute (Name ''np'') ''logical_and'')
             [Name ''x_condition'', Name ''y_condition'']
             [])],
      Markdown None,
      Code
        [Assign
           (Subscript (Attribute (Name ''mg'') ''status_at_node'') (Name ''my_nodes''))
           (Attribute (Name ''mg'') ''BC_NODE_IS_CLOSED'')],
      Markdown None,
      Code
        [Assign
           (Name ''z'')
           (Call
             (Attribute (Name ''mg'') ''add_zeros'')
             [Constant (CStr ''topographic__elevation'')]
             [(''at'', Constant (CStr ''node''))])],
      Code [Expr (Call (Name ''imshow_grid_at_node'') [Name ''mg'', Name ''z''] [])],
      Markdown None]"

definition interior_rectangle :: notebook where
  "interior_rectangle =
     \<lparr>source_file = ''notebooks/tutorials/network_sediment_transporter/network_sediment_transporter_shapefile_network.ipynb'',
      part = 1, nbformat = 4, kernel = ''python3'',
      cells = interior_rectangle_cells\<rparr>"

section \<open>Traversals\<close>

text \<open>All sub-expressions of an expression, the expression itself first.\<close>

fun subexprs :: "expr \<Rightarrow> expr list" where
  "subexprs (Name x) = [Name x]"
| "subexprs (Constant c) = [Constant c]"
| "subexprs (Attribute e a) = Attribute e a # subexprs e"
| "subexprs (Call f as ks) =
     Call f as ks # subexprs f @ concat (map subexprs as) @ concat (map (\<lambda>k. subexprs (snd k)) ks)"
| "subexprs (Subscript e i) = Subscript e i # subexprs e @ subexprs i"
| "subexprs (BinOp l opr r) = BinOp l opr r # subexprs l @ subexprs r"
| "subexprs (UnaryOp opr e) = UnaryOp opr e # subexprs e"
| "subexprs (Compare l opr r) = Compare l opr r # subexprs l @ subexprs r"
| "subexprs (ListE es) = ListE es # concat (map subexprs es)"
| "subexprs (TupleE es) = TupleE es # concat (map subexprs es)"
| "subexprs (DictE kvs) =
     DictE kvs # concat (map (\<lambda>kv. subexprs (fst kv) @ subexprs (snd kv)) kvs)"
| "subexprs (Slice lo hi) =
     Slice lo hi # (case lo of None \<Rightarrow> [] | Some e \<Rightarrow> subexprs e)
       @ (case hi of None \<Rightarrow> [] | Some e \<Rightarrow> subexprs e)"

text \<open>All statements of a statement, nested bodies included, in source order.\<close>

fun stmts_of :: "stmt \<Rightarrow> stmt list" where
  "stmts_of (For t i body) = For t i body # concat (map stmts_of body)"
| "stmts_of (While c body) = While c body # concat (map stmts_of body)"
| "stmts_of (IfElse c body orelse) =
     IfElse c body orelse # concat (map stmts_of body) @ concat (map stmts_of orelse)"
| "stmts_of (Try body handlers final) =
     Try body handlers final # concat (map stmts_of body)
       @ concat (map (\<lambda>h. concat (map stmts_of h)) handlers) @ concat (map stmts_of final)"
| "stmts_of (WithAs e body) = WithAs e body # concat (map stmts_of body)"
| "stmts_of (FunctionDef f ps body) = FunctionDef f ps body # concat (map stmts_of body)"
| "stmts_of s = [s]"

section \<open>Reading a notebook\<close>

definition notebooks :: "notebook list" where
  "notebooks = [normal_fault, flexure_1d, network_sediment_transporter, interior_rectangle]"

text \<open>The expressions a statement evaluates itself (not those of nested statements).\<close>

definition stmt_exprs :: "stmt \<Rightarrow> expr list" where
  "stmt_exprs s =
     (case s of
        Assign t v \<Rightarrow> [t, v]
      | AugAssign t opr v \<Rightarrow> [t, v]
      | Expr e \<Rightarrow> [e]
      | For t i body \<Rightarrow> [t, i]
      | While c body \<Rightarrow> [c]
      | IfElse c body orelse \<Rightarrow> [c]
      | WithAs e body \<Rightarrow> [e]
      | Raise (Some e) \<Rightarrow> [e]
      | _ \<Rightarrow> [])"

definition cell_stmts :: "cell \<Rightarrow> stmt list" where
  "cell_stmts c = (case c of Code ss \<Rightarrow> ss | Markdown t \<Rightarrow> [])"

text \<open>The top-level statements of a notebook in execution order, and all its
  statements at any depth.\<close>

definition top_statements :: "notebook \<Rightarrow> stmt list" where
  "top_statements nb = concat (map cell_stmts (cells nb))"

definition statements :: "notebook \<Rightarrow> stmt list" where
  "statements nb = concat (map stmts_of (top_statements nb))"

definition is_call :: "expr \<Rightarrow> bool" where
  "is_call e = (case e of Call f as ks \<Rightarrow> True | _ \<Rightarrow> False)"

text \<open>The calls a statement makes itself, and the calls of a notebook that
  satisfy a condition, in source order.\<close>

definition calls_of :: "stmt \<Rightarrow> expr list" where
  "calls_of s = filter is_call (concat (map subexprs (stmt_exprs s)))"

definition calls_where :: "(expr \<Rightarrow> bool) \<Rightarrow> notebook \<Rightarrow> expr list" where
  "calls_where P nb = concat (map (\<lambda>s. filter P (calls_of s)) (statements nb))"

definition every_call :: "(expr \<Rightarrow> bool) \<Rightarrow> notebook \<Rightarrow> bool" where
  "every_call P nb = list_all (\<lambda>s. list_all P (calls_of s)) (statements nb)"

definition some_call :: "(expr \<Rightarrow> bool) \<Rightarrow> notebook \<Rightarrow> bool" where
  "some_call P nb = list_ex (\<lambda>s. list_ex P (calls_of s)) (statements nb)"

text \<open>The argument expressions of a call, positional ones first.\<close>

definition call_args :: "expr \<Rightarrow> expr list" where
  "call_args e = (case e of Call f as ks \<Rightarrow> as @ map snd ks | _ \<Rightarrow> [])"

definition positional_args :: "expr \<Rightarrow> expr list" where
  "positional_args e = (case e of Call f as ks \<Rightarrow> as | _ \<Rightarrow> [])"

subsection \<open>Which names stand for what\<close>

text \<open>
  A grid is what a grid constructor returns (\<open>read_shapefile\<close> builds the
  network grid from a shapefile); a component is an instance of a class
  imported from \<open>landlab.components\<close>; a field array is what
  \<open>grid.add_zeros\<close> returns or what \<open>grid.at_node[...]\<close> holds.
\<close>

definition grid_constructors :: "string list" where
  "grid_constructors = [''RasterModelGrid'', ''HexModelGrid'', ''NetworkModelGrid'', ''read_shapefile'']"

definition binds_grid :: "stmt \<Rightarrow> string list" where
  "binds_grid s =
     (case s of
        Assign (Name g) (Call (Name f) as ks) \<Rightarrow> if f \<in> set grid_constructors then [g] else []
      | _ \<Rightarrow> [])"

definition grid_names :: "notebook \<Rightarrow> string list" where
  "grid_names nb = remdups (concat (map binds_grid (statements nb)))"

definition imports_from :: "string \<Rightarrow> stmt \<Rightarrow> string list" where
  "imports_from m s = (case s of ImportFrom m' names \<Rightarrow> if m' = m then names else [] | _ \<Rightarrow> [])"

definition component_classes :: "notebook \<Rightarrow> string list" where
  "component_classes nb = concat (map (imports_from ''landlab.components'') (statements nb))"

definition binds_component :: "string list \<Rightarrow> stmt \<Rightarrow> string list" where
  "binds_component classes s =
     (case s of
        Assign (Name c) (Call (Name f) as ks) \<Rightarrow> if f \<in> set classes then [c] else []
      | _ \<Rightarrow> [])"


definition is_field_source :: "string list \<Rightarrow> expr \<Rightarrow> bool" where
  "is_field_source grids e =
     (case e of
        Call (Attribute (Name g) m) as ks \<Rightarrow> g \<in> set grids \<and> m = ''add_zeros''
      | Subscript (Attribute (Name g) a) k \<Rightarrow> g \<in> set grids \<and> (a = ''at_node'' \<or> a = ''at_link'')
      | _ \<Rightarrow> False)"



text \<open>
  Plotting functions: whatever is reached through the alias of
  \<open>matplotlib.pyplot\<close>, and the names imported from \<open>matplotlib.pyplot\<close> or
  from a \<open>landlab.plot\<close> module (the landlab plotting helpers).
\<close>

definition binds_pyplot :: "stmt \<Rightarrow> string list" where
  "binds_pyplot s =
     (case s of
        Import m (Some a) \<Rightarrow> if m = ''matplotlib.pyplot'' then [a] else []
      | ImportFrom m names \<Rightarrow> if m = ''matplotlib.pyplot'' then names else []
      | _ \<Rightarrow> [])"

definition binds_plot_helper :: "stmt \<Rightarrow> string list" where
  "binds_plot_helper s =
     (case s of
        ImportFrom m names \<Rightarrow> if take 12 m = ''landlab.plot'' then names else []
      | _ \<Rightarrow> [])"

definition pyplot_names :: "notebook \<Rightarrow> string list" where
  "pyplot_names nb = concat (map binds_pyplot (statements nb))"

definition plot_helper_names :: "notebook \<Rightarrow> string list" where
  "plot_helper_names nb = concat (map binds_plot_helper (statements nb))"

text \<open>A call of \<open>f(...)\<close> or \<open>m.f(...)\<close> where \<open>f\<close>, respectively \<open>m\<close>, is one of \<open>names\<close>.\<close>

definition calls_through :: "string list \<Rightarrow> expr \<Rightarrow> bool" where
  "calls_through names e =
     (case e of
        Call (Name f) as ks \<Rightarrow> f \<in> set names
      | Call (Attribute (Name m) f) as ks \<Rightarrow> m \<in> set names
      | _ \<Rightarrow> False)"

definition plot_names :: "notebook \<Rightarrow> string list" where
  "plot_names nb = pyplot_names nb @ plot_helper_names nb"

text \<open>A per-step update call: \<open>c.run_one_step(...)\<close> or \<open>c.update(...)\<close>.\<close>

definition is_step_call :: "expr \<Rightarrow> bool" where
  "is_step_call e =
     (case e of
        Call (Attribute (Name c) m) as ks \<Rightarrow> m = ''run_one_step'' \<or> m = ''update''
      | _ \<Rightarrow> False)"

definition is_range_loop :: "stmt \<Rightarrow> bool" where
  "is_range_loop s =
     (case s of
        For t (Call (Name f) as ks) body \<Rightarrow> f = ''range''
      | _ \<Rightarrow> False)"

subsection \<open>Names read, bound and reached\<close>

text \<open>The names a statement binds: by an import, an assignment to a plain
  name, or as the variable of a loop.\<close>

definition binds :: "stmt \<Rightarrow> string list" where
  "binds s =
     (case s of
        Import m (Some a) \<Rightarrow> [a]
      | Import m None \<Rightarrow> [takeWhile (\<lambda>c. c \<noteq> CHR ''.'') m]
      | ImportFrom m names \<Rightarrow> names
      | Assign (Name x) v \<Rightarrow> [x]
      | For (Name x) i body \<Rightarrow> [x]
      | _ \<Rightarrow> [])"


definition name_of :: "expr \<Rightarrow> string list" where
  "name_of e = (case e of Name x \<Rightarrow> [x] | _ \<Rightarrow> [])"

definition names_in :: "expr list \<Rightarrow> string list" where
  "names_in es = concat (map name_of (concat (map subexprs es)))"

text \<open>
  The variable an attribute or subscript chain starts from: \<open>x.a[i].b\<close> reaches
  into the object that \<open>x\<close> holds. A call breaks the chain, its result being an
  object of its own.
\<close>

fun view_root :: "expr \<Rightarrow> string list" where
  "view_root (Name x) = [x]"
| "view_root (Attribute e a) = view_root e"
| "view_root (Subscript e i) = view_root e"
| "view_root e = []"

text \<open>The variable on whose object a method is called.\<close>

definition receiver :: "expr \<Rightarrow> string list" where
  "receiver e = (case e of Call (Attribute r m) as ks \<Rightarrow> view_root r | _ \<Rightarrow> [])"

text \<open>The elements of a list in the order of their first occurrence.\<close>

definition first_occurrences :: "'a list \<Rightarrow> 'a list" where
  "first_occurrences xs = rev (remdups (rev xs))"

subsection \<open>The phases of a notebook\<close>

datatype phase =
  ImportLibrary | BuildGrid | AttachFields | ConstructComponent | IterateTimesteps | Visualize

text \<open>
  The phase a top-level statement belongs to, if any: an import; the
  construction of a grid; a field attached to the grid (\<open>grid.add_zeros\<close>, or an
  assignment to \<open>grid.at_node[...]\<close> or \<open>grid.at_link[...]\<close>); the construction
  of a component; a loop over \<open>range(...)\<close> that calls a step method; a plotting
  call. Parameter choices and other glue belong to no phase.
\<close>

definition attaches_field :: "string list \<Rightarrow> stmt \<Rightarrow> bool" where
  "attaches_field grids s =
     (case s of
        Expr e \<Rightarrow> is_field_source grids e
      | Assign (Name a) v \<Rightarrow> is_field_source grids v
      | Assign t v \<Rightarrow> is_field_source grids t
      | _ \<Rightarrow> False)"

definition steps_in_loop :: "stmt \<Rightarrow> bool" where
  "steps_in_loop s =
     (case s of
        For t i body \<Rightarrow>
          is_range_loop s \<and>
          list_ex is_step_call (concat (map stmt_exprs (concat (map stmts_of body))))
      | _ \<Rightarrow> False)"

definition plots :: "string list \<Rightarrow> stmt \<Rightarrow> bool" where
  "plots names s =
     (case s of
        Expr e \<Rightarrow> calls_through names e
      | Assign t v \<Rightarrow> calls_through names v
      | _ \<Rightarrow> False)"

definition is_import :: "stmt \<Rightarrow> bool" where
  "is_import s = (case s of Import m a \<Rightarrow> True | ImportFrom m names \<Rightarrow> True | _ \<Rightarrow> False)"

definition phase_of :: "string list \<Rightarrow> string list \<Rightarrow> string list \<Rightarrow> stmt \<Rightarrow> phase list" where
  "phase_of grids classes plotters s =
     (if is_import s then [ImportLibrary]
      else if binds_grid s \<noteq> [] then [BuildGrid]
      else if attaches_field grids s then [AttachFields]
      else if binds_component classes s \<noteq> [] then [ConstructComponent]
      else if steps_in_loop s then [IterateTimesteps]
      else if plots plotters s then [Visualize]
      else [])"

definition phases :: "notebook \<Rightarrow> phase list" where
  "phases nb =
     concat (map (phase_of (grid_names nb) (component_classes nb) (plot_names nb)) (top_statements nb))"

text \<open>
  The order of the specification: all six phases occur, each as one block, in
  the order import, grid, fields, components, time loop, plots.
\<close>

definition follows_phase_order :: "notebook \<Rightarrow> bool" where
  "follows_phase_order nb =
     (remdups_adj (phases nb) =
        [ImportLibrary, BuildGrid, AttachFields, ConstructComponent, IterateTimesteps, Visualize])"

text \<open>
  What the notebooks do. The first import, the first grid, the first field,
  the first component and the first time loop, as far as they occur, come in
  the order of the specification; nothing is plotted before the grid is built;
  imports, a grid, fields and plots occur.
\<close>

definition in_spec_order :: "phase list \<Rightarrow> bool" where
  "in_spec_order ps =
     (filter (\<lambda>p. p \<noteq> Visualize) (first_occurrences ps) =
        filter (\<lambda>p. p \<in> set ps)
          [ImportLibrary, BuildGrid, AttachFields, ConstructComponent, IterateTimesteps] \<and>
      take 2 (first_occurrences ps) = [ImportLibrary, BuildGrid] \<and>
      list_all (\<lambda>p. p \<in> set ps) [ImportLibrary, BuildGrid, AttachFields, Visualize])"

text \<open>
  Every step call, inside a loop or not, is made on a variable that holds a
  component constructed by an earlier statement. The statements are scanned in
  execution order; \<open>built\<close> collects the components constructed so far.
\<close>

fun steps_after_construction :: "string list \<Rightarrow> string list \<Rightarrow> stmt list \<Rightarrow> bool" where
  "steps_after_construction classes built [] = True"
| "steps_after_construction classes built (s # ss) =
     (list_all (\<lambda>e. receiver e \<noteq> [] \<and> list_all (\<lambda>c. c \<in> set built) (receiver e))
        (filter is_step_call (calls_of s)) \<and>
      steps_after_construction classes (binds_component classes s @ built) ss)"

text \<open>No statement before the first grid construction makes a plotting call,
  at any depth.\<close>

definition no_plot_before_grid :: "notebook \<Rightarrow> bool" where
  "no_plot_before_grid nb =
     list_all (\<lambda>s. \<not> list_ex (calls_through (plot_names nb)) (calls_of s))
       (takeWhile (\<lambda>s. binds_grid s = []) (statements nb))"

text \<open>The last top-level statement of the notebook is a plotting call.\<close>

definition ends_with_plot :: "notebook \<Rightarrow> bool" where
  "ends_with_plot nb =
     (case rev (top_statements nb) of
        [] \<Rightarrow> False
      | s # ss \<Rightarrow> plots (plot_names nb) s)"

definition phases_in_order :: "notebook \<Rightarrow> bool" where
  "phases_in_order nb =
     (in_spec_order (phases nb) \<and>
      no_plot_before_grid nb \<and>
      steps_after_construction (component_classes nb) [] (statements nb) \<and>
      ends_with_plot nb)"

subsection \<open>Error handling\<close>

text \<open>
  The statements by which Python code catches, raises or retries: \<open>try\<close>,
  \<open>with\<close> (a context manager may swallow an exception), \<open>raise\<close>, and
  \<open>while\<close> (a retry loop).
\<close>

definition handles_errors :: "stmt \<Rightarrow> bool" where
  "handles_errors s =
     (case s of
        Try body handlers final \<Rightarrow> True
      | WithAs e body \<Rightarrow> True
      | Raise e \<Rightarrow> True
      | While c body \<Rightarrow> True
      | _ \<Rightarrow> False)"

text \<open>
  A call that switches failure reports off: \<open>warnings.filterwarnings("ignore", ...)\<close>
  or \<open>warnings.simplefilter("ignore", ...)\<close>.
\<close>

definition suppresses_warnings :: "expr \<Rightarrow> bool" where
  "suppresses_warnings e =
     (case e of
        Call (Attribute (Name m) f) (Constant (CStr action) # as) ks \<Rightarrow>
          m = ''warnings'' \<and> (f = ''filterwarnings'' \<or> f = ''simplefilter'') \<and> action = ''ignore''
      | _ \<Rightarrow> False)"

text \<open>The specification: no error-handling construct, no suppression of failures.\<close>

definition no_error_handling :: "notebook \<Rightarrow> bool" where
  "no_error_handling nb =
     (\<not> list_ex handles_errors (statements nb) \<and> \<not> some_call suppresses_warnings nb)"

subsection \<open>Arguments of calls\<close>

fun is_literal :: "expr \<Rightarrow> bool" where
  "is_literal (Constant c) = True"
| "is_literal (UnaryOp opr e) = is_literal e"
| "is_literal (ListE es) = list_all is_literal es"
| "is_literal (TupleE es) = list_all is_literal es"
| "is_literal (DictE kvs) = list_all (\<lambda>kv. is_literal (fst kv) \<and> is_literal (snd kv)) kvs"
| "is_literal e = False"

definition literal_arguments :: "expr \<Rightarrow> bool" where
  "literal_arguments e = list_all is_literal (call_args e)"

text \<open>The specification: every call is made with literal arguments only.\<close>

definition invoked_with_literals :: "notebook \<Rightarrow> bool" where
  "invoked_with_literals nb = every_call literal_arguments nb"

text \<open>
  What the notebooks do: the names in the arguments of a call are bound
  before the call, by an import, an assignment or a loop, or are Python
  builtins. The statements are scanned in execution order.
\<close>

definition builtins :: "string list" where
  "builtins = [''range'', ''print'', ''int'', ''bool'']"

definition argument_names :: "stmt \<Rightarrow> string list" where
  "argument_names s = names_in (concat (map call_args (calls_of s)))"

fun bound_before_use :: "string list \<Rightarrow> stmt list \<Rightarrow> bool" where
  "bound_before_use env [] = True"
| "bound_before_use env (s # ss) =
     (list_all (\<lambda>x. x \<in> set env) (argument_names s) \<and> bound_before_use (binds s @ env) ss)"

definition arguments_bound_before_use :: "notebook \<Rightarrow> bool" where
  "arguments_bound_before_use nb = bound_before_use builtins (statements nb)"

subsection \<open>Step calls and plotting helpers\<close>

definition step_calls :: "notebook \<Rightarrow> expr list" where
  "step_calls nb = calls_where is_step_call nb"

definition plot_helper_calls :: "notebook \<Rightarrow> expr list" where
  "plot_helper_calls nb = calls_where (calls_through (plot_helper_names nb)) nb"

text \<open>The specification: a step call takes a timestep duration; a plotting
  helper takes a grid and one or more field names.\<close>

definition takes_timestep :: "expr \<Rightarrow> bool" where
  "takes_timestep e = (call_args e \<noteq> [])"

definition is_field_name :: "expr \<Rightarrow> bool" where
  "is_field_name e = (case e of Constant (CStr f) \<Rightarrow> True | _ \<Rightarrow> False)"

definition takes_grid_and_fields :: "string list \<Rightarrow> expr \<Rightarrow> bool" where
  "takes_grid_and_fields grids e =
     (case positional_args e of
        Name g # f # fs \<Rightarrow> g \<in> set grids \<and> list_all is_field_name (f # fs)
      | _ \<Rightarrow> False)"

definition step_and_plot_signatures :: "notebook \<Rightarrow> bool" where
  "step_and_plot_signatures nb =
     (list_all takes_timestep (step_calls nb) \<and>
      list_all (takes_grid_and_fields (grid_names nb)) (plot_helper_calls nb))"

text \<open>What the notebooks do: a step call takes \<open>dt\<close> or nothing; a plotting
  helper takes the grid first.\<close>

definition takes_dt_or_nothing :: "expr \<Rightarrow> bool" where
  "takes_dt_or_nothing e = (call_args e = [] \<or> call_args e = [Name ''dt''])"

definition takes_grid_first :: "string list \<Rightarrow> expr \<Rightarrow> bool" where
  "takes_grid_first grids e =
     (case positional_args e of
        Name g # as \<Rightarrow> g \<in> set grids
      | _ \<Rightarrow> False)"

definition step_and_plot_usage :: "notebook \<Rightarrow> bool" where
  "step_and_plot_usage nb =
     (list_all takes_dt_or_nothing (step_calls nb) \<and>
      list_all (takes_grid_first (grid_names nb)) (plot_helper_calls nb))"

subsection \<open>What a cell consists of\<close>

text \<open>
  The specification: a cell consists only of library calls, parameter
  choices and plotting commands (and the imports that make them available):
  a call standing alone, a name bound to the result of a call, or a name bound
  to a literal.
\<close>

definition call_or_parameter :: "stmt \<Rightarrow> bool" where
  "call_or_parameter s =
     (case s of
        Import m a \<Rightarrow> True
      | ImportFrom m names \<Rightarrow> True
      | Magic m \<Rightarrow> True
      | Expr e \<Rightarrow> is_call e
      | Assign (Name x) v \<Rightarrow> is_call v \<or> is_literal v
      | _ \<Rightarrow> False)"

definition only_calls_and_parameters :: "notebook \<Rightarrow> bool" where
  "only_calls_and_parameters nb = list_all call_or_parameter (top_statements nb)"

text \<open>
  What the notebooks do: their only compound statement is the \<open>for\<close> loop over
  \<open>range(...)\<close>; everything else is an import, a magic, an assignment, an
  augmented assignment or an expression statement.
\<close>

definition simple_or_range_loop :: "stmt \<Rightarrow> bool" where
  "simple_or_range_loop s =
     (case s of
        For t i body \<Rightarrow> is_range_loop s
      | While c body \<Rightarrow> False
      | IfElse c body orelse \<Rightarrow> False
      | Try body handlers final \<Rightarrow> False
      | WithAs e body \<Rightarrow> False
      | Raise e \<Rightarrow> False
      | FunctionDef f ps body \<Rightarrow> False
      | _ \<Rightarrow> True)"

definition straight_line_with_range_loops :: "notebook \<Rightarrow> bool" where
  "straight_line_with_range_loops nb = list_all simple_or_range_loop (statements nb)"

subsection \<open>State shared between cells\<close>


















section \<open>The numerical code the notebooks write themselves\<close>

text \<open>
  A few cells compute with arrays directly instead of calling a landlab
  component. Arrays are lists; numbers are exact rationals. The coordinates and
  thresholds compared in the boundary-conditions cell (small integers and
  halves) are floats that hold these rationals exactly; the rate 0.001 of the
  fault-throw cell is not, and that computation is stated in exact arithmetic.
  A raised exception is an \<open>Inl\<close> result.
\<close>

datatype np_error = ValueError | IndexError | ZeroDivisionError

subsection \<open>numpy operations used by the cells\<close>

text \<open>\<open>np.arange(start, stop, step)\<close> on integers.\<close>

definition np_arange :: "int \<Rightarrow> int \<Rightarrow> int \<Rightarrow> np_error + int list" where
  "np_arange start stop step =
     (if step = 0 then Inl ZeroDivisionError
      else Inr (map (\<lambda>k. start + int k * step) [0..<nat (- ((start - stop) div step))]))"

text \<open>
  \<open>np.interp(x, xp, fp)\<close>: piecewise linear interpolation through the points
  \<open>(xp, fp)\<close>, \<open>xp\<close> increasing; left of the first point the value is the
  first \<open>fp\<close>, right of the last point the last one.
\<close>

fun interp_point :: "rat \<Rightarrow> rat list \<Rightarrow> rat list \<Rightarrow> rat" where
  "interp_point x (x0 # x1 # xp) (f0 # f1 # fp) =
     (if x < x1 then (f1 - f0) / (x1 - x0) * (x - x0) + f0
      else interp_point x (x1 # xp) (f1 # fp))"
| "interp_point x xp fp = last fp"

definition np_interp :: "rat list \<Rightarrow> rat list \<Rightarrow> rat list \<Rightarrow> np_error + rat list" where
  "np_interp xs xp fp =
     (if length xp \<noteq> length fp \<or> xp = [] then Inl ValueError
      else Inr (map (\<lambda>x. if x \<le> hd xp then hd fp else interp_point x xp fp) xs))"

fun cumsum_from :: "rat \<Rightarrow> rat list \<Rightarrow> rat list" where
  "cumsum_from acc [] = []"
| "cumsum_from acc (x # xs) = (acc + x) # cumsum_from (acc + x) xs"

definition np_cumsum :: "rat list \<Rightarrow> rat list" where
  "np_cumsum xs = cumsum_from 0 xs"

text \<open>
  A binary element-wise operation on two one-dimensional arrays, with numpy's
  broadcasting: equal lengths, or one operand of length one.
\<close>

definition np_elementwise ::
  "('a \<Rightarrow> 'b \<Rightarrow> 'c) \<Rightarrow> 'a list \<Rightarrow> 'b list \<Rightarrow> np_error + 'c list" where
  "np_elementwise f xs ys =
     (if length xs = length ys then Inr (map2 f xs ys)
      else if length xs = 1 then Inr (map (f (hd xs)) ys)
      else if length ys = 1 then Inr (map (\<lambda>x. f x (hd ys)) xs)
      else Inl ValueError)"

definition np_minimum :: "rat list \<Rightarrow> rat list \<Rightarrow> np_error + rat list" where
  "np_minimum = np_elementwise min"

definition np_logical_and :: "bool list \<Rightarrow> bool list \<Rightarrow> np_error + bool list" where
  "np_logical_and = np_elementwise (\<and>)"

text \<open>\<open>a[:] = v\<close>: every element of \<open>a\<close> is overwritten; \<open>v\<close> must fit.\<close>

definition assign_all :: "'a list \<Rightarrow> 'a list \<Rightarrow> np_error + 'a list" where
  "assign_all a v =
     (if length v = length a then Inr v
      else if length v = 1 then Inr (replicate (length a) (hd v))
      else Inl ValueError)"

text \<open>
  \<open>a[idx] += c\<close> with an index array is \<open>a[idx] = a[idx] + c\<close>: the old
  values are gathered, \<open>c\<close> is added, and the sums are scattered back, so an
  index listed twice is still raised once. An index out of range raises.
\<close>

definition gather :: "'a list \<Rightarrow> nat list \<Rightarrow> 'a list" where
  "gather a idx = map (\<lambda>i. a ! i) idx"

definition scatter :: "'a list \<Rightarrow> nat list \<Rightarrow> 'a list \<Rightarrow> 'a list" where
  "scatter a idx vs = fold (\<lambda>(i, v) a'. a'[i := v]) (zip idx vs) a"

definition iadd_at :: "rat list \<Rightarrow> nat list \<Rightarrow> rat \<Rightarrow> np_error + rat list" where
  "iadd_at a idx c =
     (if list_all (\<lambda>i. i < length a) idx
      then Inr (scatter a idx (map (\<lambda>v. v + c) (gather a idx)))
      else Inl IndexError)"

text \<open>\<open>a[mask] = v\<close> with a boolean mask of the array's length.\<close>

definition assign_where :: "'a list \<Rightarrow> bool list \<Rightarrow> 'a \<Rightarrow> np_error + 'a list" where
  "assign_where a msk v =
     (if length msk = length a then Inr (map2 (\<lambda>m x. if m then v else x) msk a)
      else Inl IndexError)"

subsection \<open>Cumulative fault throw (NormalFault notebook)\<close>

text \<open>
  \<^verbatim>\<open>
  t = np.arange(0, 300 * dt, dt)
  rate_constant = np.interp(t, [0, 300 * dt], [0.001, 0.001])
  cumulative_rock_uplift_constant = np.cumsum(rate_constant) * dt
  \<close>

  The time step \<open>dt\<close> is a notebook parameter (1000 when this cell runs).
\<close>

definition rate_constant :: "int \<Rightarrow> np_error + rat list" where
  "rate_constant dt =
     (case np_arange 0 (300 * dt) dt of
        Inl e \<Rightarrow> Inl e
      | Inr t \<Rightarrow> np_interp (map of_int t) [0, of_int (300 * dt)] [1 / 1000, 1 / 1000])"

definition cumulative_rock_uplift_constant :: "int \<Rightarrow> np_error + rat list" where
  "cumulative_rock_uplift_constant dt =
     (case rate_constant dt of
        Inl e \<Rightarrow> Inl e
      | Inr r \<Rightarrow> Inr (map (\<lambda>v. v * of_int dt) (np_cumsum r)))"

subsection \<open>The soil-and-bedrock model loop (NormalFault notebook)\<close>

text \<open>
  \<^verbatim>\<open>
  for i in range(300):
      nf.run_one_step(dt)
      fr.run_one_step()
      fs.run_one_step(dt)
      b = grid.at_node["bedrock__elevation"]
      b[:] = np.minimum(b, grid.at_node["topographic__elevation"])
      ew.calc_soil_prod_rate()
      dd.run_one_step(dt)
      z[grid.core_nodes] += U * dt
      b[grid.core_nodes] += U * dt
  \<close>

  The grid's fields are arrays indexed by node. \<open>z\<close> is the array that
  \<open>grid.add_zeros("topographic__elevation")\<close> returned, the grid's own
  field array (landlab components write fields in place), and \<open>b\<close> is read
  from the grid in every iteration. The five component calls are library code:
  they are parameters of the model, arbitrary functions on the grid's state,
  whose extension part \<open>'a\<close> holds whatever else the library keeps.
\<close>

record grid_fields =
  core_nodes :: "nat list"
  topographic__elevation :: "rat list"
  bedrock__elevation :: "rat list"

record 'a components =
  nf_run_one_step :: "int \<Rightarrow> 'a grid_fields_scheme \<Rightarrow> 'a grid_fields_scheme"
  fr_run_one_step :: "'a grid_fields_scheme \<Rightarrow> 'a grid_fields_scheme"
  fs_run_one_step :: "int \<Rightarrow> 'a grid_fields_scheme \<Rightarrow> 'a grid_fields_scheme"
  ew_calc_soil_prod_rate :: "'a grid_fields_scheme \<Rightarrow> 'a grid_fields_scheme"
  dd_run_one_step :: "int \<Rightarrow> 'a grid_fields_scheme \<Rightarrow> 'a grid_fields_scheme"

definition reset_bedrock :: "'a grid_fields_scheme \<Rightarrow> np_error + 'a grid_fields_scheme" where
  "reset_bedrock g =
     (case np_minimum (bedrock__elevation g) (topographic__elevation g) of
        Inl e \<Rightarrow> Inl e
      | Inr m \<Rightarrow>
          (case assign_all (bedrock__elevation g) m of
             Inl e \<Rightarrow> Inl e
           | Inr b \<Rightarrow> Inr (g\<lparr>bedrock__elevation := b\<rparr>)))"

definition uplift :: "rat \<Rightarrow> int \<Rightarrow> 'a grid_fields_scheme \<Rightarrow> np_error + 'a grid_fields_scheme" where
  "uplift U dt g =
     (case iadd_at (topographic__elevation g) (core_nodes g) (U * of_int dt) of
        Inl e \<Rightarrow> Inl e
      | Inr z \<Rightarrow>
          (case iadd_at (bedrock__elevation g) (core_nodes g) (U * of_int dt) of
             Inl e \<Rightarrow> Inl e
           | Inr b \<Rightarrow> Inr (g\<lparr>topographic__elevation := z, bedrock__elevation := b\<rparr>)))"

definition erode :: "'a components \<Rightarrow> int \<Rightarrow> 'a grid_fields_scheme \<Rightarrow> 'a grid_fields_scheme" where
  "erode c dt g = fs_run_one_step c dt (fr_run_one_step c (nf_run_one_step c dt g))"

definition make_soil :: "'a components \<Rightarrow> int \<Rightarrow> 'a grid_fields_scheme \<Rightarrow> 'a grid_fields_scheme" where
  "make_soil c dt g = dd_run_one_step c dt (ew_calc_soil_prod_rate c g)"

definition model_step ::
  "'a components \<Rightarrow> rat \<Rightarrow> int \<Rightarrow> 'a grid_fields_scheme \<Rightarrow> np_error + 'a grid_fields_scheme" where
  "model_step c U dt g =
     (case reset_bedrock (erode c dt g) of
        Inl e \<Rightarrow> Inl e
      | Inr g' \<Rightarrow> uplift U dt (make_soil c dt g'))"

fun model_loop ::
  "'a components \<Rightarrow> rat \<Rightarrow> int \<Rightarrow> nat \<Rightarrow> 'a grid_fields_scheme \<Rightarrow> np_error + 'a grid_fields_scheme" where
  "model_loop c U dt 0 g = Inr g"
| "model_loop c U dt (Suc n) g =
     (case model_step c U dt g of
        Inl e \<Rightarrow> Inl e
      | Inr g' \<Rightarrow> model_loop c U dt n g')"

text \<open>The state right after the reset in iteration \<open>i\<close> (counted from 0).\<close>

definition after_reset ::
  "'a components \<Rightarrow> rat \<Rightarrow> int \<Rightarrow> nat \<Rightarrow> 'a grid_fields_scheme \<Rightarrow> np_error + 'a grid_fields_scheme" where
  "after_reset c U dt i g =
     (case model_loop c U dt i g of
        Inl e \<Rightarrow> Inl e
      | Inr g' \<Rightarrow> reset_bedrock (erode c dt g'))"

definition is_node :: "'a grid_fields_scheme \<Rightarrow> nat \<Rightarrow> bool" where
  "is_node g n = (n < length (bedrock__elevation g) \<and> n < length (topographic__elevation g))"

definition bedrock_below :: "'a grid_fields_scheme \<Rightarrow> nat \<Rightarrow> bool" where
  "bedrock_below g n = (bedrock__elevation g ! n \<le> topographic__elevation g ! n)"

subsection \<open>The closed interior rectangle (boundary-conditions notebook)\<close>

text \<open>
  Modelled from the spec: the grid's node arrays and the node status codes
  belong to the library and are not among the notebooks. A grid holds the
  coordinates and the boundary status of its nodes; the status codes are the
  library's constants for core, fixed-value and closed nodes.
\<close>

record raster_grid =
  x_of_node :: "rat list"
  y_of_node :: "rat list"
  status_at_node :: "nat list"

definition BC_NODE_IS_CORE :: nat where
  "BC_NODE_IS_CORE = 0"

definition BC_NODE_IS_FIXED_VALUE :: nat where
  "BC_NODE_IS_FIXED_VALUE = 1"

definition BC_NODE_IS_CLOSED :: nat where
  "BC_NODE_IS_CLOSED = 4"

definition perimeter :: "nat \<Rightarrow> nat \<Rightarrow> nat \<Rightarrow> bool" where
  "perimeter nrows ncols k =
     (k mod ncols = 0 \<or> k mod ncols = ncols - 1 \<or> k div ncols = 0 \<or> k div ncols = nrows - 1)"

text \<open>
  Modelled from the spec: the grid class \<open>RasterModelGrid\<close> belongs to the
  library and is not among the notebooks. A raster grid of unit spacing numbers
  its nodes row by row from the lower left corner, so node \<open>k\<close> of a grid with
  \<open>ncols\<close> columns lies at \<open>x = k mod ncols\<close>, \<open>y = k div ncols\<close>; a new grid
  has fixed-value boundary nodes on its perimeter and core nodes inside.
\<close>

definition RasterModelGrid :: "nat \<times> nat \<Rightarrow> raster_grid" where
  "RasterModelGrid shape =
     (case shape of (nrows, ncols) \<Rightarrow>
        \<lparr>x_of_node = map (\<lambda>k. of_nat (k mod ncols)) [0..<nrows * ncols],
         y_of_node = map (\<lambda>k. of_nat (k div ncols)) [0..<nrows * ncols],
         status_at_node =
           map (\<lambda>k. if perimeter nrows ncols k then BC_NODE_IS_FIXED_VALUE else BC_NODE_IS_CORE)
             [0..<nrows * ncols]\<rparr>)"

text \<open>
  \<^verbatim>\<open>
  min_x = 2.5
  max_x = 5.0
  min_y = 3.5
  max_y = 7.5
  x_condition = np.logical_and(mg.x_of_node < max_x, mg.x_of_node > min_x)
  y_condition = np.logical_and(mg.y_of_node < max_y, mg.y_of_node > min_y)
  my_nodes = np.logical_and(x_condition, y_condition)
  mg.status_at_node[my_nodes] = mg.BC_NODE_IS_CLOSED
  \<close>
\<close>

definition min_x :: rat where
  "min_x = 5 / 2"

definition max_x :: rat where
  "max_x = 5"

definition min_y :: rat where
  "min_y = 7 / 2"

definition max_y :: rat where
  "max_y = 15 / 2"

definition x_condition :: "raster_grid \<Rightarrow> np_error + bool list" where
  "x_condition mg =
     np_logical_and (map (\<lambda>x. x < max_x) (x_of_node mg)) (map (\<lambda>x. x > min_x) (x_of_node mg))"

definition y_condition :: "raster_grid \<Rightarrow> np_error + bool list" where
  "y_condition mg =
     np_logical_and (map (\<lambda>y. y < max_y) (y_of_node mg)) (map (\<lambda>y. y > min_y) (y_of_node mg))"

definition my_nodes :: "raster_grid \<Rightarrow> np_error + bool list" where
  "my_nodes mg =
     (case x_condition mg of
        Inl e \<Rightarrow> Inl e
      | Inr xc \<Rightarrow> (case y_condition mg of Inl e \<Rightarrow> Inl e | Inr yc \<Rightarrow> np_logical_and xc yc))"

definition close_my_nodes :: "raster_grid \<Rightarrow> np_error + raster_grid" where
  "close_my_nodes mg =
     (case my_nodes mg of
        Inl e \<Rightarrow> Inl e
      | Inr m \<Rightarrow>
          (case assign_where (status_at_node mg) m BC_NODE_IS_CLOSED of
             Inl e \<Rightarrow> Inl e
           | Inr s \<Rightarrow> Inr (mg\<lparr>status_at_node := s\<rparr>)))"

text \<open>The nodes a mask selects, and the nodes at which two status arrays differ.\<close>

definition selected :: "bool list \<Rightarrow> nat list" where
  "selected msk = filter (\<lambda>k. msk ! k) [0..<length msk]"

definition changed :: "nat list \<Rightarrow> nat list \<Rightarrow> nat list" where
  "changed old new = filter (\<lambda>k. old ! k \<noteq> new ! k) [0..<length old]"

subsection \<open>A three-node example of the model loop\<close>

text \<open>
  Stand-ins for the library components: the fault raises every node by one
  metre, the eroder lowers the surface by three, the others leave the fields
  alone. Node 1 is the only core node.
\<close>

definition example_components :: "unit components" where
  "example_components =
     \<lparr>nf_run_one_step =
        (\<lambda>dt g. g\<lparr>topographic__elevation := map (\<lambda>v. v + 1) (topographic__elevation g),
                    bedrock__elevation := map (\<lambda>v. v + 1) (bedrock__elevation g)\<rparr>),
      fr_run_one_step = (\<lambda>g. g),
      fs_run_one_step =
        (\<lambda>dt g. g\<lparr>topographic__elevation := map (\<lambda>v. v - 3) (topographic__elevation g)\<rparr>),
      ew_calc_soil_prod_rate = (\<lambda>g. g),
      dd_run_one_step = (\<lambda>dt g. g)\<rparr>"

definition example_grid :: grid_fields where
  "example_grid =
     \<lparr>core_nodes = [1], topographic__elevation = [10, 12, 9], bedrock__elevation = [9, 11, 2]\<rparr>"

section \<open>The order of the cells\<close>

text \<open>
  C1, as stated, fails. The boundary-conditions notebook imports, builds a
  grid, attaches a field and plots, but constructs no component and runs no
  time loop; and plotting does not wait for the end: the sediment-transport
  notebook plots the network before it attaches its fields.
\<close>

theorem phase_order_counterexample:
  "remdups_adj (phases interior_rectangle) = [ImportLibrary, BuildGrid, AttachFields, Visualize] \<and>
   \<not> follows_phase_order interior_rectangle \<and>
   remdups_adj (phases network_sediment_transporter) =
     [ImportLibrary, BuildGrid, Visualize, AttachFields, ConstructComponent, IterateTimesteps,
      Visualize] \<and>
   \<not> follows_phase_order network_sediment_transporter"
  by code_simp

text \<open>
  C1, amended. In every notebook the first import, the first grid
  construction, the first field attachment, the first component construction
  and the first loop over time steps, as far as they occur, come in this order;
  imports, a grid, fields and plots occur in every notebook and nothing is
  plotted before the grid is built; every step call, inside a loop or not, is
  made on a component constructed before it; and the last top-level statement
  of every notebook is a plotting call. Not every notebook has every phase: a
  component is constructed in all notebooks but the boundary-conditions one,
  and a loop over a fixed number of time steps runs in the NormalFault and the
  sediment-transport notebooks only. Plots also occur before the end (in the
  NormalFault notebook before the first loop, in the sediment-transport
  notebook before the fields), and the NormalFault notebook goes through grid,
  fields, component, loop and plot once for each of its experiments.
\<close>

theorem phases_of_the_notebooks:
  "(\<forall>nb \<in> set notebooks. phases_in_order nb) \<and>
   map (\<lambda>nb. first_occurrences (phases nb)) notebooks =
     [[ImportLibrary, BuildGrid, AttachFields, ConstructComponent, Visualize, IterateTimesteps],
      [ImportLibrary, BuildGrid, AttachFields, ConstructComponent, Visualize],
      [ImportLibrary, BuildGrid, Visualize, AttachFields, ConstructComponent, IterateTimesteps],
      [ImportLibrary, BuildGrid, AttachFields, Visualize]] \<and>
   remdups_adj (phases normal_fault) =
     [ImportLibrary,
      BuildGrid, AttachFields, ConstructComponent, Visualize, ConstructComponent, Visualize,
      BuildGrid, AttachFields, ConstructComponent, Visualize,
      BuildGrid, AttachFields, ConstructComponent, Visualize,
      BuildGrid, AttachFields, ConstructComponent, IterateTimesteps, Visualize,
      BuildGrid, AttachFields, ConstructComponent, IterateTimesteps, Visualize,
      BuildGrid, AttachFields, ConstructComponent, IterateTimesteps, Visualize,
      ImportLibrary,
      BuildGrid, AttachFields, ConstructComponent, IterateTimesteps, Visualize]"
proof -
  have "phases_in_order normal_fault"
    and "phases_in_order flexure_1d"
    and "phases_in_order network_sediment_transporter"
    and "phases_in_order interior_rectangle"
    by code_simp+
  moreover have "first_occurrences (phases normal_fault) =
      [ImportLibrary, BuildGrid, AttachFields, ConstructComponent, Visualize, IterateTimesteps]"
    and "first_occurrences (phases flexure_1d) =
      [ImportLibrary, BuildGrid, AttachFields, ConstructComponent, Visualize]"
    and "first_occurrences (phases network_sediment_transporter) =
      [ImportLibrary, BuildGrid, Visualize, AttachFields, ConstructComponent, IterateTimesteps]"
    and "first_occurrences (phases interior_rectangle) =
      [ImportLibrary, BuildGrid, AttachFields, Visualize]"
    by code_simp+
  moreover have "remdups_adj (phases normal_fault) =
     [ImportLibrary,
      BuildGrid, AttachFields, ConstructComponent, Visualize, ConstructComponent, Visualize,
      BuildGrid, AttachFields, ConstructComponent, Visualize,
      BuildGrid, AttachFields, ConstructComponent, Visualize,
      BuildGrid, AttachFields, ConstructComponent, IterateTimesteps, Visualize,
      BuildGrid, AttachFields, ConstructComponent, IterateTimesteps, Visualize,
      BuildGrid, AttachFields, ConstructComponent, IterateTimesteps, Visualize,
      ImportLibrary,
      BuildGrid, AttachFields, ConstructComponent, IterateTimesteps, Visualize]"
    by code_simp
  ultimately show ?thesis
    by (simp add: notebooks_def)
qed

theorem phases_of_the_notebooks_witness:
  "flexure_1d \<in> set notebooks \<and> phases_in_order flexure_1d"
  using phases_of_the_notebooks by (simp add: notebooks_def)

section \<open>Error handling\<close>

text \<open>
  C2, as stated, fails: the sediment-transport notebook begins with
  \<open>warnings.filterwarnings("ignore")\<close>, which suppresses every warning the
  library issues afterwards.
\<close>

theorem error_handling_counterexample:
  "calls_where suppresses_warnings network_sediment_transporter =
     [Call (Attribute (Name ''warnings'') ''filterwarnings'') [Constant (CStr ''ignore'')] []] \<and>
   \<not> no_error_handling network_sediment_transporter"
  by code_simp

text \<open>
  C2, amended. No notebook contains a \<open>try\<close>, \<open>with\<close>, \<open>raise\<close> or \<open>while\<close>
  statement, at any depth, so nothing catches, replaces or retries after an
  exception raised by a library call: it leaves the cell as it was raised. The
  one suppression in the repository is the warning filter of the
  sediment-transport notebook; the other notebooks suppress nothing.
\<close>

theorem no_exception_handling:
  "(\<forall>nb \<in> set notebooks. \<not> list_ex handles_errors (statements nb)) \<and>
   no_error_handling normal_fault \<and>
   no_error_handling flexure_1d \<and>
   no_error_handling interior_rectangle"
proof -
  have "\<not> list_ex handles_errors (statements normal_fault)"
    and "\<not> list_ex handles_errors (statements flexure_1d)"
    and "\<not> list_ex handles_errors (statements network_sediment_transporter)"
    and "\<not> list_ex handles_errors (statements interior_rectangle)"
    by code_simp+
  moreover have "no_error_handling normal_fault"
    and "no_error_handling flexure_1d"
    and "no_error_handling interior_rectangle"
    by code_simp+
  ultimately show ?thesis
    by (simp add: notebooks_def)
qed

theorem no_exception_handling_witness:
  "network_sediment_transporter \<in> set notebooks \<and>
   \<not> list_ex handles_errors (statements network_sediment_transporter)"
  using no_exception_handling by (simp add: notebooks_def)

section \<open>State shared between cells\<close>




section \<open>Arguments of calls\<close>

text \<open>
  C4, as stated, fails: the NormalFault notebook computes the array \<open>time\<close>
  by arithmetic on an array and on \<open>dt\<close>, and a later cell passes it to the
  constructor of \<open>NormalFault\<close>, next to the grid.
\<close>

theorem literal_arguments_counterexample:
  "list_ex (\<lambda>s. case s of Assign (Name x) (BinOp l opr r) \<Rightarrow> x = ''time'' | _ \<Rightarrow> False)
     (statements normal_fault) \<and>
   some_call (\<lambda>e. case e of
       Call (Name f) as ks \<Rightarrow> f = ''NormalFault'' \<and> ''time'' \<in> set (names_in (call_args e))
     | _ \<Rightarrow> False) normal_fault \<and>
   \<not> invoked_with_literals normal_fault"
  by code_simp

text \<open>
  C4, amended. The arguments of every call are built from literals and from
  names that the notebook has bound before the call (by an import, an earlier
  assignment or a loop) or that are Python builtins; so calls do receive the
  grid, components, parameter variables and arrays computed by earlier
  notebook code.
\<close>

theorem arguments_are_bound:
  "\<forall>nb \<in> set notebooks. arguments_bound_before_use nb"
proof -
  have "arguments_bound_before_use normal_fault"
    and "arguments_bound_before_use flexure_1d"
    and "arguments_bound_before_use network_sediment_transporter"
    and "arguments_bound_before_use interior_rectangle"
    by code_simp+
  then show ?thesis
    by (simp add: notebooks_def)
qed

theorem arguments_are_bound_witness:
  "normal_fault \<in> set notebooks \<and> arguments_bound_before_use normal_fault"
  using arguments_are_bound by (simp add: notebooks_def)

section \<open>Step calls and plotting helpers\<close>

text \<open>
  C5, as stated, fails: in the NormalFault notebook \<open>fr.run_one_step()\<close> takes
  no timestep, and \<open>imshow_grid(grid, z)\<close> takes an array, not a field name.
\<close>

theorem signatures_counterexample:
  "Call (Attribute (Name ''fr'') ''run_one_step'') [] [] \<in> set (step_calls normal_fault) \<and>
   \<not> takes_timestep (Call (Attribute (Name ''fr'') ''run_one_step'') [] []) \<and>
   Call (Name ''imshow_grid'') [Name ''grid'', Name ''z''] [] \<in> set (plot_helper_calls normal_fault) \<and>
   \<not> takes_grid_and_fields (grid_names normal_fault) (Call (Name ''imshow_grid'') [Name ''grid'', Name ''z''] []) \<and>
   \<not> step_and_plot_signatures normal_fault"
  by code_simp

text \<open>
  C5, amended. Every per-step update call takes either the timestep \<open>dt\<close> as
  its only argument or no argument at all (10 of the 18 calls take \<open>dt\<close>);
  every call of a landlab plotting helper takes the grid as its first argument,
  and only 3 of the 13 calls continue with field names.
\<close>

theorem step_and_plot_calls:
  "(\<forall>nb \<in> set notebooks. step_and_plot_usage nb) \<and>
   map (\<lambda>nb. (length (step_calls nb), length (filter takes_timestep (step_calls nb)))) notebooks =
     [(13, 9), (3, 0), (2, 1), (0, 0)] \<and>
   map (\<lambda>nb. (length (plot_helper_calls nb),
       length (filter (takes_grid_and_fields (grid_names nb)) (plot_helper_calls nb)))) notebooks =
     [(10, 3), (0, 0), (2, 0), (1, 0)]"
proof -
  have "step_and_plot_usage normal_fault"
    and "step_and_plot_usage flexure_1d"
    and "step_and_plot_usage network_sediment_transporter"
    and "step_and_plot_usage interior_rectangle"
    by code_simp+
  moreover have "length (step_calls normal_fault) = 13"
    and "length (filter takes_timestep (step_calls normal_fault)) = 9"
    and "length (step_calls flexure_1d) = 3"
    and "length (filter takes_timestep (step_calls flexure_1d)) = 0"
    and "length (step_calls network_sediment_transporter) = 2"
    and "length (filter takes_timestep (step_calls network_sediment_transporter)) = 1"
    and "length (step_calls interior_rectangle) = 0"
    and "length (filter takes_timestep (step_calls interior_rectangle)) = 0"
    by code_simp+
  moreover have "length (plot_helper_calls normal_fault) = 10"
    and "length (filter (takes_grid_and_fields (grid_names normal_fault))
      (plot_helper_calls normal_fault)) = 3"
    and "length (plot_helper_calls flexure_1d) = 0"
    and "length (filter (takes_grid_and_fields (grid_names flexure_1d))
      (plot_helper_calls flexure_1d)) = 0"
    and "length (plot_helper_calls network_sediment_transporter) = 2"
    and "length (filter (takes_grid_and_fields (grid_names network_sediment_transporter))
      (plot_helper_calls network_sediment_transporter)) = 0"
    and "length (plot_helper_calls interior_rectangle) = 1"
    and "length (filter (takes_grid_and_fields (grid_names interior_rectangle))
      (plot_helper_calls interior_rectangle)) = 0"
    by code_simp+
  ultimately show ?thesis
    by (simp add: notebooks_def)
qed

theorem step_and_plot_calls_witness:
  "normal_fault \<in> set notebooks \<and> step_and_plot_usage normal_fault"
  using step_and_plot_calls by (simp add: notebooks_def)

section \<open>What a cell consists of\<close>

text \<open>
  C6, as stated, fails: the NormalFault notebook drives its models with \<open>for\<close>
  loops of its own and, inside them, uplifts the surface itself by array
  arithmetic (\<open>z[grid.core_nodes] += U * dt\<close>): control logic and a numerical
  update that are neither a library call, nor a parameter choice, nor a
  plotting command.
\<close>

theorem cell_contents_counterexample:
  "list_ex is_range_loop (top_statements normal_fault) \<and>
   AugAssign (Subscript (Name ''z'') (Attribute (Name ''grid'') ''core_nodes'')) Add
       (BinOp (Name ''U'') Mult (Name ''dt'')) \<in> set (statements normal_fault) \<and>
   \<not> call_or_parameter
       (AugAssign (Subscript (Name ''z'') (Attribute (Name ''grid'') ''core_nodes'')) Add
          (BinOp (Name ''U'') Mult (Name ''dt''))) \<and>
   \<not> only_calls_and_parameters normal_fault"
  by code_simp

text \<open>
  C6, amended. No cell defines a function or uses \<open>while\<close>, \<open>if\<close>, \<open>try\<close>,
  \<open>with\<close> or \<open>raise\<close>: at any depth, a statement is an import, a magic, an
  assignment, an augmented assignment, an expression statement, or a \<open>for\<close>
  loop over \<open>range(...)\<close>. Beside library calls, parameter choices and plotting
  commands the cells do contain code of their own: these loops, and array
  arithmetic, comparisons and in-place updates written in the notebook.
\<close>

theorem cells_are_straight_line:
  "\<forall>nb \<in> set notebooks. straight_line_with_range_loops nb"
proof -
  have "straight_line_with_range_loops normal_fault"
    and "straight_line_with_range_loops flexure_1d"
    and "straight_line_with_range_loops network_sediment_transporter"
    and "straight_line_with_range_loops interior_rectangle"
    by code_simp+
  then show ?thesis
    by (simp add: notebooks_def)
qed

theorem cells_are_straight_line_witness:
  "normal_fault \<in> set notebooks \<and> straight_line_with_range_loops normal_fault"
  using cells_are_straight_line by (simp add: notebooks_def)

section \<open>Cumulative fault throw\<close>

lemma np_arange_from_zero:
  assumes "dt \<noteq> 0"
  shows "np_arange 0 (int n * dt) dt = Inr (map (\<lambda>k. int k * dt) [0..<n])"
proof -
  have "- (int n * dt) div dt = - int n"
    using assms by (metis mult_minus_left nonzero_mult_div_cancel_right)
  then show ?thesis
    using assms by (simp add: np_arange_def)
qed

lemma np_interp_two_equal:
  "np_interp xs [a, b] [c, c] = Inr (replicate (length xs) c)"
  by (simp add: np_interp_def map_replicate_const [symmetric])

lemma cumsum_from_replicate:
  "cumsum_from acc (replicate n c) = map (\<lambda>k. acc + of_nat (Suc k) * c) [0..<n]"
proof (induction n arbitrary: acc)
  case 0
  show ?case by simp
next
  case (Suc n)
  have "cumsum_from acc (replicate (Suc n) c) = (acc + c) # cumsum_from (acc + c) (replicate n c)"
    by simp
  also have "\<dots> = (acc + c) # map (\<lambda>k. acc + c + of_nat (Suc k) * c) [0..<n]"
    by (simp only: Suc.IH)
  also have "\<dots> = map (\<lambda>k. acc + of_nat (Suc k) * c) [0..<Suc n]"
    by (simp add: upt_rec [of 0 "Suc n"] map_Suc_upt [symmetric] algebra_simps del: upt_Suc)
  finally show ?case .
qed

lemma last_cumsum_replicate:
  "last (np_cumsum (replicate (Suc n) c)) = of_nat (Suc n) * c"
  by (simp add: np_cumsum_def cumsum_from_replicate del: replicate.simps)

lemma rate_constant_eq:
  assumes "dt \<noteq> 0"
  shows "rate_constant dt = Inr (replicate 300 (1 / 1000))"
proof -
  have "np_arange 0 (int 300 * dt) dt = Inr (map (\<lambda>k. int k * dt) [0..<300])"
    using assms by (rule np_arange_from_zero)
  then have "np_arange 0 (300 * dt) dt = Inr (map (\<lambda>k. int k * dt) [0..<300])"
    by simp
  then show ?thesis
    unfolding rate_constant_def by (simp add: np_interp_two_equal del: upt_Suc)
qed

lemma cumulative_rock_uplift_constant_eq:
  assumes "dt \<noteq> 0"
  shows "cumulative_rock_uplift_constant dt =
    Inr (map (\<lambda>v. v * of_int dt) (np_cumsum (replicate 300 (1 / 1000))))"
  using assms by (simp add: cumulative_rock_uplift_constant_def rate_constant_eq)

lemma last_scaled_cumsum:
  "last (map (\<lambda>v. v * d) (np_cumsum (replicate (Suc n) c))) = of_nat (Suc n) * c * d"
proof -
  have "np_cumsum (replicate (Suc n) c) \<noteq> []"
    by (simp add: np_cumsum_def)
  then have "last (map (\<lambda>v. v * d) (np_cumsum (replicate (Suc n) c))) =
      last (np_cumsum (replicate (Suc n) c)) * d"
    by (rule last_map)
  then show ?thesis
    by (simp only: last_cumsum_replicate)
qed

text \<open>
  C10. With \<open>dt = 1000\<close> the constant-rate series is 0.001 at each of the 300
  sample times, and the last element of \<open>np.cumsum(rate_constant) * dt\<close> is
  exactly 300: a throw rate of 0.001 over 300 steps of 1000 years accumulates
  300 m of fault throw.
\<close>

theorem cumulative_throw_is_300:
  "rate_constant 1000 = Inr (replicate 300 (1 / 1000)) \<and>
   map_sum id last (cumulative_rock_uplift_constant 1000) = Inr 300"
proof -
  have r: "rate_constant 1000 = Inr (replicate 300 (1 / 1000))"
    by (rule rate_constant_eq) simp
  have "cumulative_rock_uplift_constant 1000 =
      Inr (map (\<lambda>v. v * of_int 1000) (np_cumsum (replicate 300 (1 / 1000))))"
    by (rule cumulative_rock_uplift_constant_eq) simp
  moreover have "(300::nat) = Suc 299"
    by simp
  ultimately have "map_sum id last (cumulative_rock_uplift_constant 1000) =
      Inr (of_nat (Suc 299) * (1 / 1000) * of_int 1000)"
    by (simp only: map_sum.simps last_scaled_cumsum)
  then show ?thesis
    using r by simp
qed

section \<open>Bedrock stays below the surface\<close>

lemma hd_singleton:
  "length z = Suc 0 \<Longrightarrow> hd z = z ! 0"
  by (cases z) simp_all

lemma reset_le:
  assumes "np_minimum b z = Inr m" and "assign_all b m = Inr b'"
    and "n < length b'" and "n < length z"
  shows "b' ! n \<le> z ! n"
  using assms
  by (auto simp: np_minimum_def np_elementwise_def assign_all_def hd_singleton
      split: if_splits)

lemma reset_unchanged:
  assumes "np_minimum b z = Inr m" and "assign_all b m = Inr b'"
    and "n < length b" and "n < length z" and "b ! n \<le> z ! n"
  shows "b' ! n = b ! n"
  using assms
  by (auto simp: np_minimum_def np_elementwise_def assign_all_def hd_singleton
      split: if_splits)

lemma scatter_nth:
  assumes "n < length a"
  shows "fold (\<lambda>(i, v) a'. a'[i := v]) (zip idx (map f idx)) a ! n =
    (if n \<in> set idx then f n else a ! n)"
  using assms
proof (induction idx arbitrary: a)
  case Nil
  show ?case by simp
next
  case (Cons i idx)
  from Cons.prems have "n < length (a[i := f i])"
    by simp
  then have "fold (\<lambda>(i, v) a'. a'[i := v]) (zip idx (map f idx)) (a[i := f i]) ! n =
      (if n \<in> set idx then f n else a[i := f i] ! n)"
    by (rule Cons.IH)
  with Cons.prems show ?case
    by (auto simp: nth_list_update)
qed

lemma scatter_length:
  "length (fold (\<lambda>(i, v) a'. a'[i := v]) ps a) = length a"
  by (induction ps arbitrary: a) auto

lemma iadd_at_nth:
  assumes "iadd_at a idx c = Inr a'" and "n < length a"
  shows "a' ! n = (if n \<in> set idx then a ! n + c else a ! n)"
proof -
  from assms(1) have "a' = fold (\<lambda>(i, v) a'. a'[i := v]) (zip idx (map (\<lambda>i. a ! i + c) idx)) a"
    by (simp add: iadd_at_def scatter_def gather_def comp_def split: if_splits)
  with assms(2) show ?thesis
    by (simp only: scatter_nth)
qed

lemma iadd_at_length:
  assumes "iadd_at a idx c = Inr a'"
  shows "length a' = length a"
  using assms by (auto simp: iadd_at_def scatter_def scatter_length split: if_splits)

lemma reset_bedrock_below:
  assumes "reset_bedrock g = Inr g'" and "is_node g' n"
  shows "bedrock_below g' n"
proof -
  from assms(1) obtain m b where m: "np_minimum (bedrock__elevation g) (topographic__elevation g) = Inr m"
    and b: "assign_all (bedrock__elevation g) m = Inr b"
    and g': "g' = g\<lparr>bedrock__elevation := b\<rparr>"
    by (auto simp: reset_bedrock_def split: sum.splits)
  from assms(2) g' have "n < length b" and "n < length (topographic__elevation g)"
    by (simp_all add: is_node_def)
  with m b have "b ! n \<le> topographic__elevation g ! n"
    by (rule reset_le)
  with g' show ?thesis
    by (simp add: bedrock_below_def)
qed

lemma reset_bedrock_unchanged:
  assumes "reset_bedrock g = Inr g'" and "is_node g n" and "bedrock_below g n"
  shows "bedrock__elevation g' ! n = bedrock__elevation g ! n"
proof -
  from assms(1) obtain m b where m: "np_minimum (bedrock__elevation g) (topographic__elevation g) = Inr m"
    and b: "assign_all (bedrock__elevation g) m = Inr b"
    and g': "g' = g\<lparr>bedrock__elevation := b\<rparr>"
    by (auto simp: reset_bedrock_def split: sum.splits)
  from assms(2,3) have "n < length (bedrock__elevation g)" and "n < length (topographic__elevation g)"
    and "bedrock__elevation g ! n \<le> topographic__elevation g ! n"
    by (simp_all add: is_node_def bedrock_below_def)
  with m b have "b ! n = bedrock__elevation g ! n"
    by (rule reset_unchanged)
  with g' show ?thesis
    by simp
qed

lemma uplift_preserves_below:
  assumes "uplift U dt g = Inr g'" and "is_node g n" and "bedrock_below g n"
  shows "is_node g' n \<and> bedrock_below g' n"
proof -
  from assms(1) obtain z b
    where z: "iadd_at (topographic__elevation g) (core_nodes g) (U * of_int dt) = Inr z"
    and b: "iadd_at (bedrock__elevation g) (core_nodes g) (U * of_int dt) = Inr b"
    and g': "g' = g\<lparr>topographic__elevation := z, bedrock__elevation := b\<rparr>"
    by (auto simp: uplift_def split: sum.splits)
  from assms(2) have nz: "n < length (topographic__elevation g)" and nb: "n < length (bedrock__elevation g)"
    by (simp_all add: is_node_def)
  from z nz have zn: "z ! n = (if n \<in> set (core_nodes g) then topographic__elevation g ! n + U * of_int dt
      else topographic__elevation g ! n)"
    by (rule iadd_at_nth)
  from b nb have bn: "b ! n = (if n \<in> set (core_nodes g) then bedrock__elevation g ! n + U * of_int dt
      else bedrock__elevation g ! n)"
    by (rule iadd_at_nth)
  from z b nz nb g' have "is_node g' n"
    by (simp add: is_node_def iadd_at_length)
  moreover from assms(3) zn bn g' have "bedrock_below g' n"
    by (simp add: bedrock_below_def)
  ultimately show ?thesis ..
qed

text \<open>
  C8. In the final model loop of the NormalFault notebook, in every iteration
  \<open>i\<close> and at every node \<open>n\<close>, right after the reset
  \<open>b[:] = np.minimum(b, topographic__elevation)\<close> the bedrock elevation is at
  most the topographic elevation, whatever the library components did before;
  the reset leaves a node that already satisfied this unchanged; and the equal
  uplift of both fields on the core nodes keeps the inequality.
\<close>

theorem bedrock_below_topography:
  "(after_reset c U dt i g0 = Inr g \<longrightarrow> is_node g n \<longrightarrow> bedrock_below g n) \<and>
   (reset_bedrock g1 = Inr g2 \<longrightarrow> is_node g1 n \<longrightarrow> bedrock_below g1 n \<longrightarrow>
      bedrock__elevation g2 ! n = bedrock__elevation g1 ! n) \<and>
   (uplift U dt g3 = Inr g4 \<longrightarrow> is_node g3 n \<longrightarrow> bedrock_below g3 n \<longrightarrow>
      is_node g4 n \<and> bedrock_below g4 n)"
proof (intro conjI impI)
  assume "after_reset c U dt i g0 = Inr g" and n: "is_node g n"
  then obtain g' where "reset_bedrock (erode c dt g') = Inr g"
    by (auto simp: after_reset_def split: sum.splits)
  then show "bedrock_below g n"
    using n by (rule reset_bedrock_below)
next
  assume "reset_bedrock g1 = Inr g2" and "is_node g1 n" and "bedrock_below g1 n"
  then show "bedrock__elevation g2 ! n = bedrock__elevation g1 ! n"
    by (rule reset_bedrock_unchanged)
next
  assume u: "uplift U dt g3 = Inr g4" and n: "is_node g3 n" and b: "bedrock_below g3 n"
  from u n b show "is_node g4 n"
    by (rule uplift_preserves_below [THEN conjunct1])
  from u n b show "bedrock_below g4 n"
    by (rule uplift_preserves_below [THEN conjunct2])
qed

theorem bedrock_below_topography_witness:
  "after_reset example_components (1 / 10000) 100 (Suc 0) example_grid =
     Inr \<lparr>core_nodes = [1], topographic__elevation = [6, 801 / 100, 5],
          bedrock__elevation = [6, 801 / 100, 4]\<rparr> \<and>
   bedrock_below \<lparr>core_nodes = [1], topographic__elevation = [6, 801 / 100, 5],
          bedrock__elevation = [6, 801 / 100, 4]\<rparr> 1 \<and>
   reset_bedrock (example_grid\<lparr>topographic__elevation := [8, 12, 9]\<rparr>) =
     Inr (example_grid\<lparr>topographic__elevation := [8, 12, 9], bedrock__elevation := [8, 11, 2]\<rparr>) \<and>
   bedrock_below (example_grid\<lparr>topographic__elevation := [8, 12, 9]\<rparr>) 1 \<and>
   bedrock__elevation (example_grid\<lparr>topographic__elevation := [8, 12, 9],
     bedrock__elevation := [8, 11, 2]\<rparr>) ! 1 = 11 \<and>
   uplift (1 / 10000) 100 example_grid =
     Inr \<lparr>core_nodes = [1], topographic__elevation = [10, 1201 / 100, 9],
          bedrock__elevation = [9, 1101 / 100, 2]\<rparr> \<and>
   bedrock_below example_grid 1 \<and>
   bedrock_below \<lparr>core_nodes = [1], topographic__elevation = [10, 1201 / 100, 9],
          bedrock__elevation = [9, 1101 / 100, 2]\<rparr> 1"
proof -
  let ?g = "\<lparr>core_nodes = [1], topographic__elevation = [6, 801 / 100, 5],
      bedrock__elevation = [6, 801 / 100, 4]\<rparr>"
  let ?g1 = "example_grid\<lparr>topographic__elevation := [8, 12, 9]\<rparr>"
  let ?g2 = "example_grid\<lparr>topographic__elevation := [8, 12, 9], bedrock__elevation := [8, 11, 2]\<rparr>"
  let ?g4 = "\<lparr>core_nodes = [1], topographic__elevation = [10, 1201 / 100, 9],
      bedrock__elevation = [9, 1101 / 100, 2]\<rparr>"
  note inst = bedrock_below_topography
    [of example_components "1 / 10000" 100 "Suc 0" example_grid ?g 1 ?g1 ?g2 example_grid ?g4]
  have a: "after_reset example_components (1 / 10000) 100 (Suc 0) example_grid = Inr ?g"
    by code_simp
  have an: "is_node ?g 1"
    by code_simp
  have r: "reset_bedrock ?g1 = Inr ?g2"
    by code_simp
  have rn: "is_node ?g1 1" and rb: "bedrock_below ?g1 1"
    by code_simp+
  have u: "uplift (1 / 10000) 100 example_grid = Inr ?g4"
    by code_simp
  have un: "is_node example_grid 1" and ub: "bedrock_below example_grid 1"
    by code_simp+
  from inst a an have "bedrock_below ?g 1"
    by blast
  moreover from inst r rn rb have "bedrock__elevation ?g2 ! 1 = bedrock__elevation ?g1 ! 1"
    by blast
  then have "bedrock__elevation ?g2 ! 1 = 11"
    by (simp add: example_grid_def)
  moreover from inst u un ub have "bedrock_below ?g4 1"
    by blast
  ultimately show ?thesis
    using a r rb u ub by blast
qed

section \<open>The closed interior rectangle\<close>

lemma x_of_node_raster:
  "k < nrows * ncols \<Longrightarrow> x_of_node (RasterModelGrid (nrows, ncols)) ! k = of_nat (k mod ncols)"
  by (simp add: RasterModelGrid_def)

lemma y_of_node_raster:
  "k < nrows * ncols \<Longrightarrow> y_of_node (RasterModelGrid (nrows, ncols)) ! k = of_nat (k div ncols)"
  by (simp add: RasterModelGrid_def)

text \<open>
  C9. On \<open>RasterModelGrid((10, 10))\<close> the mask \<open>my_nodes\<close> selects exactly the
  eight nodes with \<open>x\<close> in \<open>{3, 4}\<close> and \<open>y\<close> in \<open>{4, 5, 6, 7}\<close>; none of
  them lies on the perimeter; the assignment of \<open>BC_NODE_IS_CLOSED\<close> changes
  the status of exactly these eight nodes, to closed, and of no perimeter node.
\<close>

theorem interior_rectangle_closes_eight_nodes:
  "map_sum id selected (my_nodes (RasterModelGrid (10, 10))) =
     Inr [43, 44, 53, 54, 63, 64, 73, 74] \<and>
   filter (\<lambda>k. (x_of_node (RasterModelGrid (10, 10)) ! k = 3 \<or>
                 x_of_node (RasterModelGrid (10, 10)) ! k = 4) \<and>
                (y_of_node (RasterModelGrid (10, 10)) ! k = 4 \<or>
                 y_of_node (RasterModelGrid (10, 10)) ! k = 5 \<or>
                 y_of_node (RasterModelGrid (10, 10)) ! k = 6 \<or>
                 y_of_node (RasterModelGrid (10, 10)) ! k = 7)) [0..<100] =
     [43, 44, 53, 54, 63, 64, 73, 74] \<and>
   filter (perimeter 10 10) [43, 44, 53, 54, 63, 64, 73, 74] = [] \<and>
   map_sum id (\<lambda>mg. changed (status_at_node (RasterModelGrid (10, 10))) (status_at_node mg))
       (close_my_nodes (RasterModelGrid (10, 10))) =
     Inr [43, 44, 53, 54, 63, 64, 73, 74] \<and>
   map_sum id (\<lambda>mg. map (\<lambda>k. status_at_node mg ! k) [43, 44, 53, 54, 63, 64, 73, 74])
       (close_my_nodes (RasterModelGrid (10, 10))) =
     Inr (replicate 8 BC_NODE_IS_CLOSED) \<and>
   map_sum id (\<lambda>mg. filter (perimeter 10 10)
         (changed (status_at_node (RasterModelGrid (10, 10))) (status_at_node mg)))
       (close_my_nodes (RasterModelGrid (10, 10))) =
     Inr []"
proof (intro conjI)
  show "map_sum id selected (my_nodes (RasterModelGrid (10, 10))) =
      Inr [43, 44, 53, 54, 63, 64, 73, 74]"
    by code_simp
  have "filter (\<lambda>k. (x_of_node (RasterModelGrid (10, 10)) ! k = 3 \<or>
                 x_of_node (RasterModelGrid (10, 10)) ! k = 4) \<and>
                (y_of_node (RasterModelGrid (10, 10)) ! k = 4 \<or>
                 y_of_node (RasterModelGrid (10, 10)) ! k = 5 \<or>
                 y_of_node (RasterModelGrid (10, 10)) ! k = 6 \<or>
                 y_of_node (RasterModelGrid (10, 10)) ! k = 7)) [0..<100] =
     filter (\<lambda>k. (k mod 10 = 3 \<or> k mod 10 = 4) \<and>
                (k div 10 = 4 \<or> k div 10 = 5 \<or> k div 10 = 6 \<or> k div 10 = 7)) [0..<100]"
    by (rule filter_cong) (simp_all add: x_of_node_raster y_of_node_raster)
  also have "\<dots> = [43, 44, 53, 54, 63, 64, 73, 74]"
    by code_simp
  finally show "filter (\<lambda>k. (x_of_node (RasterModelGrid (10, 10)) ! k = 3 \<or>
                 x_of_node (RasterModelGrid (10, 10)) ! k = 4) \<and>
                (y_of_node (RasterModelGrid (10, 10)) ! k = 4 \<or>
                 y_of_node (RasterModelGrid (10, 10)) ! k = 5 \<or>
                 y_of_node (RasterModelGrid (10, 10)) ! k = 6 \<or>
                 y_of_node (RasterModelGrid (10, 10)) ! k = 7)) [0..<100] =
     [43, 44, 53, 54, 63, 64, 73, 74]" .
  show "filter (perimeter 10 10) [43, 44, 53, 54, 63, 64, 73, 74] = []"
    by code_simp
  show "map_sum id (\<lambda>mg. changed (status_at_node (RasterModelGrid (10, 10))) (status_at_node mg))
       (close_my_nodes (RasterModelGrid (10, 10))) =
     Inr [43, 44, 53, 54, 63, 64, 73, 74]"
    by code_simp
  show "map_sum id (\<lambda>mg. map (\<lambda>k. status_at_node mg ! k) [43, 44, 53, 54, 63, 64, 73, 74])
       (close_my_nodes (RasterModelGrid (10, 10))) =
     Inr (replicate 8 BC_NODE_IS_CLOSED)"
    by code_simp
  show "map_sum id (\<lambda>mg. filter (perimeter 10 10)
         (changed (status_at_node (RasterModelGrid (10, 10))) (status_at_node mg)))
       (close_my_nodes (RasterModelGrid (10, 10))) =
     Inr []"
    by code_simp
qed

end

